theory Spec2Isabelle
  imports Complex_Main
begin

section \<open>Numbers\<close>

text \<open>
  The simulators compute with JavaScript Numbers, IEEE binary64 values. \<open>num\<close> is a
  Number with exact arithmetic on the finite values: \<open>Fin r\<close> is the finite Number \<open>r\<close>,
  and the two infinities and NaN behave as IEEE 754 prescribes. Rounding and overflow are
  not part of \<open>num\<close> (the binary64 transcription further down adds the rounding). The sign
  of a zero is not kept: a zero divisor counts as \<open>+0\<close>, which is the zero that
  \<^verbatim>\<open>width / (devicePixelRatio || 1)\<close> yields in a browser.
\<close>

datatype num = Fin real | PInf | NInf | NaN

fun sign_of :: "num \<Rightarrow> real" where
  "sign_of (Fin a) = sgn a"
| "sign_of PInf = 1"
| "sign_of NInf = -1"
| "sign_of NaN = 0"

fun signed_inf :: "real \<Rightarrow> num" where
  "signed_inf s = (if s = 0 then NaN else if 0 < s then PInf else NInf)"

instantiation num :: "{plus, minus, uminus, times, inverse, ord}"
begin

fun plus_num :: "num \<Rightarrow> num \<Rightarrow> num" where
  "Fin a + Fin b = Fin (a + b)"
| "NaN + (y::num) = NaN"
| "(x::num) + NaN = NaN"
| "PInf + NInf = NaN"
| "NInf + PInf = NaN"
| "PInf + (y::num) = PInf"
| "NInf + (y::num) = NInf"
| "(x::num) + PInf = PInf"
| "(x::num) + NInf = NInf"

fun uminus_num :: "num \<Rightarrow> num" where
  "- Fin a = Fin (- a)"
| "- PInf = NInf"
| "- NInf = PInf"
| "- NaN = NaN"

definition minus_num :: "num \<Rightarrow> num \<Rightarrow> num" where
  "x - y = x + (- y)" for x y :: num

fun times_num :: "num \<Rightarrow> num \<Rightarrow> num" where
  "Fin a * Fin b = Fin (a * b)"
| "NaN * (y::num) = NaN"
| "(x::num) * NaN = NaN"
| "(x::num) * y = signed_inf (sign_of x * sign_of y)"

fun divide_num :: "num \<Rightarrow> num \<Rightarrow> num" where
  "divide_num (Fin a) (Fin b) = (if b = 0 then signed_inf (sgn a) else Fin (a / b))"
| "divide_num NaN y = NaN"
| "divide_num x NaN = NaN"
| "divide_num (Fin a) y = Fin 0"
| "divide_num x (Fin b) = signed_inf (sign_of x * (if b < 0 then -1 else 1))"
| "divide_num x y = NaN"

definition inverse_num :: "num \<Rightarrow> num" where
  "inverse x = divide (Fin 1) x" for x :: num

fun less_num :: "num \<Rightarrow> num \<Rightarrow> bool" where
  "Fin a < Fin b = (a < b)"
| "NaN < (y::num) = False"
| "(x::num) < NaN = False"
| "(x::num) < NInf = False"
| "PInf < (y::num) = False"
| "(x::num) < y = True"

definition less_eq_num :: "num \<Rightarrow> num \<Rightarrow> bool" where
  "x \<le> y = (x < y \<or> (x = y \<and> x \<noteq> NaN))" for x y :: num

instance ..

end

text \<open>\<^verbatim>\<open>Math.pow(v, 2)\<close>.\<close>

fun squared :: "num \<Rightarrow> num" where
  "squared (Fin a) = Fin (a\<^sup>2)"
| "squared NaN = NaN"
| "squared x = PInf"

text \<open>\<^verbatim>\<open>a || d\<close> on a finite Number \<open>a\<close>: zero is falsy.\<close>

definition or_num :: "real \<Rightarrow> real \<Rightarrow> real" where
  "or_num a d = (if a = 0 then d else a)"

section \<open>The drawing surface\<close>

text \<open>
  Every simulator copies \<^verbatim>\<open>canvas.width\<close> and \<^verbatim>\<open>canvas.height\<close> into
  \<^verbatim>\<open>this.width\<close> and \<^verbatim>\<open>this.height\<close>, and each method recomputes
  \<^verbatim>\<open>this.width / (window.devicePixelRatio || 1)\<close>. The global
  \<^verbatim>\<open>window.devicePixelRatio\<close> is a field of the record, and \<open>ctx\<close> is the handle of
  the 2D context that \<^verbatim>\<open>canvas.getContext('2d')\<close> returned. The records of the
  simulators extend this one; each keeps the fields that the methods modelled here read or
  write.
\<close>

record surface =
  ctx :: nat
  width :: real
  height :: real
  devicePixelRatio :: real

definition pixelWidth :: "'a surface_scheme \<Rightarrow> real" where
  "pixelWidth s = width s / or_num (devicePixelRatio s) 1"

definition pixelHeight :: "'a surface_scheme \<Rightarrow> real" where
  "pixelHeight s = height s / or_num (devicePixelRatio s) 1"

section \<open>Objects and construction\<close>

text \<open>
  Every constructor starts with
  \<^verbatim>\<open>this.canvas = document.getElementById(canvasId); if (!this.canvas) { console.error(...); return; }\<close>.
  After that early return the object has the single property \<^verbatim>\<open>canvas\<close> (null).
  Such an object is \<open>Inert\<close> and keeps its properties as a property map, where an
  absent property reads as \<^verbatim>\<open>undefined\<close>; an object whose constructor ran to its end is
  \<open>Live\<close> and is the record of its class. A thrown exception is \<open>Inl\<close> of a result.
\<close>

datatype error = TypeError

datatype jsval = Undefined | Null | Bool bool | Num real | Str string | Arr "jsval list" | Ref nat

type_synonym props = "string \<Rightarrow> jsval option"

datatype 'a object = Inert props | Live 'a

definition getp :: "props \<Rightarrow> string \<Rightarrow> jsval" where
  "getp this k = (case this k of None \<Rightarrow> Undefined | Some v \<Rightarrow> v)"

fun truthy :: "jsval \<Rightarrow> bool" where
  "truthy Undefined = False"
| "truthy Null = False"
| "truthy (Bool b) = b"
| "truthy (Num r) = (r \<noteq> 0)"
| "truthy (Str s) = (s \<noteq> [])"
| "truthy (Arr xs) = True"
| "truthy (Ref r) = True"

text \<open>
  \<^verbatim>\<open>options.key || d\<close>: an absent option is \<open>None\<close>; zero and the empty string are
  falsy.
\<close>

definition or_opt :: "real option \<Rightarrow> real \<Rightarrow> real" where
  "or_opt v d = (case v of None \<Rightarrow> d | Some r \<Rightarrow> or_num r d)"

definition or_str :: "string option \<Rightarrow> string \<Rightarrow> string" where
  "or_str v d = (case v of None \<Rightarrow> d | Some s \<Rightarrow> if s = [] then d else s)"

text \<open>
  The page: \<^verbatim>\<open>document.getElementById\<close> gives a canvas or null (\<open>None\<close>);
  \<^verbatim>\<open>getContext('2d')\<close> gives the handle of a context or null.
\<close>

record canvas =
  canvas_width :: real
  canvas_height :: real
  getContext2d :: "nat option"

type_synonym document = "string \<Rightarrow> canvas option"

definition notFound :: "string \<Rightarrow> string" where
  "notFound canvasId = ''Canvas with id '' @ [CHR 0x22] @ canvasId @ [CHR 0x22] @ '' not found''"

text \<open>
  \<^verbatim>\<open>draw()\<close> of every class first computes \<^verbatim>\<open>pixelWidth\<close> and \<^verbatim>\<open>pixelHeight\<close>
  and then uses \<^verbatim>\<open>this.ctx\<close> (\<^verbatim>\<open>this.ctx.fillStyle = ...\<close>; in the intro preview
  \<^verbatim>\<open>this.ctx.createLinearGradient(...)\<close>), which throws a TypeError unless
  \<^verbatim>\<open>this.ctx\<close> is a context object (\<open>Ref\<close>, a reference to a host object). No
  \<^verbatim>\<open>draw\<close> assigns a field of \<^verbatim>\<open>this\<close>; what it paints is not modelled.
\<close>

fun draw :: "'a object \<Rightarrow> error + 'a object" where
  "draw (Live s) = Inr (Live s)"
| "draw (Inert this) =
     (case getp this ''ctx'' of Ref c \<Rightarrow> Inr (Inert this) | _ \<Rightarrow> Inl TypeError)"

text \<open>
  The common head of the constructors, applied to the rest of the constructor as
  \<open>body\<close>. \<open>bare\<close> is the object at the early return. The value is the console
  output (the \<^verbatim>\<open>console.error\<close> messages) and the outcome of \<^verbatim>\<open>new\<close>; a null
  context makes the first \<^verbatim>\<open>draw()\<close> of \<^verbatim>\<open>init()\<close> throw.
\<close>

definition bare :: props where
  "bare = [''canvas'' \<mapsto> Null]"

definition construct ::
    "document \<Rightarrow> string \<Rightarrow> (canvas \<Rightarrow> nat \<Rightarrow> 'a) \<Rightarrow> string list \<times> (error + 'a object)" where
  "construct doc canvasId body =
     (case doc canvasId of
        None \<Rightarrow> ([notFound canvasId], Inr (Inert bare))
      | Some cv \<Rightarrow>
          (case getContext2d cv of
             None \<Rightarrow> ([], Inl TypeError)
           | Some c \<Rightarrow> ([], draw (Live (body cv c)))))"

text \<open>A page without any canvas, and a page whose canvases are all 800 by 400.\<close>

definition empty_page :: document where
  "empty_page canvasId = None"

definition full_page :: document where
  "full_page canvasId = Some \<lparr>canvas_width = 800, canvas_height = 400, getContext2d = Some 1\<rparr>"

section \<open>Bernoulli flow simulator (bernoulli.js)\<close>

record particle =
  particle_x :: real
  particle_y :: real
  particle_baseY :: real
  particle_speed :: real
  particle_size :: real
  particle_opacity :: real

record bernoulli = surface +
  baseVelocity :: real
  particleCount :: real
  isRunning :: bool
  animationFrame :: "nat option"
  particles :: "particle list"

text \<open>Constants the constructor assigns once; no method reassigns them.\<close>

definition AIR_DENSITY :: real where "AIR_DENSITY = 1.225"
definition ATMOSPHERIC_PRESSURE :: real where "ATMOSPHERIC_PRESSURE = 101325"
definition tubeTop :: real where "tubeTop = 0.3"
definition tubeBottom :: real where "tubeBottom = 0.7"
definition throatTop :: real where "throatTop = 0.4"
definition throatBottom :: real where "throatBottom = 0.6"
definition throatStart :: real where "throatStart = 0.35"
definition throatEnd :: real where "throatEnd = 0.65"

text \<open>
  \<^verbatim>\<open>getTubeHeightAt(x)\<close> returns \<^verbatim>\<open>{top, bottom}\<close>: the pair \<open>(top, bottom)\<close>.
  The argument is a finite position. \<^verbatim>\<open>pixelWidth\<close> and \<^verbatim>\<open>pixelHeight\<close> are
  finite, since their divisor \<^verbatim>\<open>devicePixelRatio || 1\<close> is not zero.
\<close>

definition getTubeHeightAt :: "bernoulli \<Rightarrow> real \<Rightarrow> num \<times> num" where
  "getTubeHeightAt b x =
     (let normalizedX = Fin x / Fin (pixelWidth b)
      in if normalizedX < Fin throatStart then
           (let t = normalizedX / Fin throatStart;
                top = Fin tubeTop + Fin (throatTop - tubeTop) * t;
                bottom = Fin tubeBottom - Fin (tubeBottom - throatBottom) * t
            in (top * Fin (pixelHeight b), bottom * Fin (pixelHeight b)))
         else if normalizedX \<ge> Fin throatStart \<and> normalizedX \<le> Fin throatEnd then
           (Fin throatTop * Fin (pixelHeight b), Fin throatBottom * Fin (pixelHeight b))
         else
           (let t = (normalizedX - Fin throatEnd) / Fin (1 - throatEnd);
                top = Fin throatTop + Fin (tubeTop - throatTop) * t;
                bottom = Fin throatBottom + Fin (tubeBottom - throatBottom) * t
            in (top * Fin (pixelHeight b), bottom * Fin (pixelHeight b))))"

definition entranceHeight :: "bernoulli \<Rightarrow> real" where
  "entranceHeight b = (tubeBottom - tubeTop) * pixelHeight b"

definition getVelocityAt :: "bernoulli \<Rightarrow> real \<Rightarrow> num" where
  "getVelocityAt b x =
     (case getTubeHeightAt b x of
        (top', bottom') \<Rightarrow>
          (let currentHeight = bottom' - top'
           in Fin (baseVelocity b) * (Fin (entranceHeight b) / currentHeight)))"

definition getPressureAt :: "bernoulli \<Rightarrow> real \<Rightarrow> num" where
  "getPressureAt b x =
     (let velocity = getVelocityAt b x;
          totalPressure = Fin (ATMOSPHERIC_PRESSURE + 0.5 * AIR_DENSITY * (baseVelocity b)\<^sup>2);
          staticPressure = totalPressure - Fin (0.5 * AIR_DENSITY) * squared velocity
      in staticPressure)"

text \<open>
  The three sample positions of \<^verbatim>\<open>drawPressureIndicators\<close> (labels Entrance, Throat,
  Exit).
\<close>

definition entranceX :: "bernoulli \<Rightarrow> real" where
  "entranceX b = pixelWidth b * 0.15"

definition throatX :: "bernoulli \<Rightarrow> real" where
  "throatX b = pixelWidth b * 0.5"

definition exitX :: "bernoulli \<Rightarrow> real" where
  "exitX b = pixelWidth b * 0.85"

text \<open>A simulator on an 800 by 400 canvas at pixel ratio 2, with the default options.\<close>

definition venturi50 :: bernoulli where
  "venturi50 = \<lparr>ctx = 1, width = 800, height = 400, devicePixelRatio = 2,
                 baseVelocity = 50, particleCount = 150, isRunning = False,
                 animationFrame = None, particles = []\<rparr>"

subsection \<open>Construction and lifecycle\<close>

record bernoulli_options =
  opt_baseVelocity :: "real option"
  opt_particleCount :: "real option"

text \<open>
  \<^verbatim>\<open>createParticles()\<close> fills \<^verbatim>\<open>this.particles\<close> from \<^verbatim>\<open>Math.random()\<close>; the
  list it builds is the argument \<open>ps\<close>. \<open>dpr\<close> is \<^verbatim>\<open>window.devicePixelRatio\<close>.
\<close>

definition BernoulliVisualization ::
    "document \<Rightarrow> real \<Rightarrow> particle list \<Rightarrow> string \<Rightarrow> bernoulli_options
      \<Rightarrow> string list \<times> (error + bernoulli object)" where
  "BernoulliVisualization doc dpr ps canvasId options =
     construct doc canvasId (\<lambda>cv c.
       \<lparr>ctx = c, width = canvas_width cv, height = canvas_height cv, devicePixelRatio = dpr,
        baseVelocity = or_opt (opt_baseVelocity options) 50,
        particleCount = or_opt (opt_particleCount options) 150,
        isRunning = False, animationFrame = None, particles = ps\<rparr>)"

fun setVelocity :: "real \<Rightarrow> bernoulli object \<Rightarrow> error + bernoulli object" where
  "setVelocity velocity (Live b) =
     (let b = b\<lparr>baseVelocity := velocity\<rparr>
      in if \<not> isRunning b then draw (Live b) else Inr (Live b))"
| "setVelocity velocity (Inert this) =
     (let this = this(''baseVelocity'' \<mapsto> Num velocity)
      in if \<not> truthy (getp this ''isRunning'') then draw (Inert this) else Inr (Inert this))"

text \<open>
  \<^verbatim>\<open>stop()\<close> clears the flag and cancels the pending frame when there is one; the
  cancellation changes no field of this class.
\<close>

fun stop :: "bernoulli object \<Rightarrow> error + bernoulli object" where
  "stop (Live b) = Inr (Live (b\<lparr>isRunning := False\<rparr>))"
| "stop (Inert this) = Inr (Inert (this(''isRunning'' \<mapsto> Bool False)))"

fun destroy :: "bernoulli object \<Rightarrow> error + bernoulli object" where
  "destroy obj =
     (case stop obj of
        Inl e \<Rightarrow> Inl e
      | Inr (Live b) \<Rightarrow> Inr (Live (b\<lparr>particles := []\<rparr>))
      | Inr (Inert this) \<Rightarrow> Inr (Inert (this(''particles'' \<mapsto> Arr []))))"

subsection \<open>The binary64 transcription of the two methods\<close>

text \<open>
  \<open>round64\<close> rounds a real to the nearest binary64 value, ties to even: the significand
  has 53 bits. The exponent range is not bounded here, so overflow and subnormal numbers
  are outside this transcription.
\<close>

definition round_even :: "real \<Rightarrow> int" where
  "round_even m =
     (let f = \<lfloor>m\<rfloor>; d = m - of_int f
      in if d < 1 / 2 then f else if d > 1 / 2 then f + 1 else if even f then f else f + 1)"

definition pow2 :: "int \<Rightarrow> real" where
  "pow2 e = (if 0 \<le> e then 2 ^ nat e else 1 / 2 ^ nat (- e))"

text \<open>
  The exponent \<open>e\<close> of a positive real \<open>a\<close>, with \<open>2 ^ e \<le> a < 2 ^ (e + 1)\<close>, found by
  halving or doubling; the bound 1100 on the number of steps covers the exponents of
  binary64.
\<close>

fun halvings :: "nat \<Rightarrow> real \<Rightarrow> int" where
  "halvings 0 a = 0"
| "halvings (Suc n) a = (if a < 2 then 0 else 1 + halvings n (a / 2))"

fun doublings :: "nat \<Rightarrow> real \<Rightarrow> int" where
  "doublings 0 a = 0"
| "doublings (Suc n) a = (if 1 \<le> a then 0 else doublings n (a * 2) - 1)"

definition exponent2 :: "real \<Rightarrow> int" where
  "exponent2 a = (if 1 \<le> a then halvings 1100 a else doublings 1100 a)"

definition round64 :: "real \<Rightarrow> real" where
  "round64 x =
     (if x = 0 then 0
      else (let a = abs x;
                e = exponent2 a;
                r = of_int (round_even (a * pow2 (52 - e))) * pow2 (e - 52)
            in if 0 < x then r else - r))"

fun rnd :: "num \<Rightarrow> num" where
  "rnd (Fin a) = Fin (round64 a)"
| "rnd x = x"

text \<open>The four operations of binary64, and a decimal literal of the source.\<close>

definition add64 :: "num \<Rightarrow> num \<Rightarrow> num" where "add64 x y = rnd (x + y)"
definition sub64 :: "num \<Rightarrow> num \<Rightarrow> num" where "sub64 x y = rnd (x - y)"
definition mul64 :: "num \<Rightarrow> num \<Rightarrow> num" where "mul64 x y = rnd (x * y)"
definition div64 :: "num \<Rightarrow> num \<Rightarrow> num" where "div64 x y = rnd (x / y)"
definition lit64 :: "real \<Rightarrow> num" where "lit64 r = Fin (round64 r)"

text \<open>
  \<^verbatim>\<open>getTubeHeightAt\<close> and \<^verbatim>\<open>getVelocityAt\<close> once more, every operation rounded. The
  fields \<open>width\<close>, \<open>height\<close>, \<open>devicePixelRatio\<close>, \<open>baseVelocity\<close> and the position are
  taken to hold binary64 values.
\<close>

definition pixelWidth64 :: "bernoulli \<Rightarrow> num" where
  "pixelWidth64 b = div64 (Fin (width b)) (Fin (or_num (devicePixelRatio b) 1))"

definition pixelHeight64 :: "bernoulli \<Rightarrow> num" where
  "pixelHeight64 b = div64 (Fin (height b)) (Fin (or_num (devicePixelRatio b) 1))"

definition getTubeHeightAt64 :: "bernoulli \<Rightarrow> real \<Rightarrow> num \<times> num" where
  "getTubeHeightAt64 b x =
     (let normalizedX = div64 (Fin x) (pixelWidth64 b)
      in if normalizedX < lit64 throatStart then
           (let t = div64 normalizedX (lit64 throatStart);
                top = add64 (lit64 tubeTop) (mul64 (sub64 (lit64 throatTop) (lit64 tubeTop)) t);
                bottom = sub64 (lit64 tubeBottom)
                           (mul64 (sub64 (lit64 tubeBottom) (lit64 throatBottom)) t)
            in (mul64 top (pixelHeight64 b), mul64 bottom (pixelHeight64 b)))
         else if normalizedX \<ge> lit64 throatStart \<and> normalizedX \<le> lit64 throatEnd then
           (mul64 (lit64 throatTop) (pixelHeight64 b), mul64 (lit64 throatBottom) (pixelHeight64 b))
         else
           (let t = div64 (sub64 normalizedX (lit64 throatEnd)) (sub64 (Fin 1) (lit64 throatEnd));
                top = add64 (lit64 throatTop) (mul64 (sub64 (lit64 tubeTop) (lit64 throatTop)) t);
                bottom = add64 (lit64 throatBottom)
                           (mul64 (sub64 (lit64 tubeBottom) (lit64 throatBottom)) t)
            in (mul64 top (pixelHeight64 b), mul64 bottom (pixelHeight64 b))))"

definition entranceHeight64 :: "bernoulli \<Rightarrow> num" where
  "entranceHeight64 b = mul64 (sub64 (lit64 tubeBottom) (lit64 tubeTop)) (pixelHeight64 b)"

definition currentHeight64 :: "bernoulli \<Rightarrow> real \<Rightarrow> num" where
  "currentHeight64 b x = (case getTubeHeightAt64 b x of (top', bottom') \<Rightarrow> sub64 bottom' top')"

definition getVelocityAt64 :: "bernoulli \<Rightarrow> real \<Rightarrow> num" where
  "getVelocityAt64 b x =
     mul64 (Fin (baseVelocity b)) (div64 (entranceHeight64 b) (currentHeight64 b x))"

text \<open>Zero, or a magnitude in the range of the normal binary64 numbers.\<close>

definition normal64 :: "real \<Rightarrow> bool" where
  "normal64 x = (x = 0 \<or> (1 / 2 ^ 1022 \<le> abs x \<and> abs x < 2 ^ 1024))"

section \<open>Airfoil simulator (main.js, AirfoilVisualization)\<close>

record airfoil = surface +
  angleOfAttack :: real
  airfoilType :: string

definition calculateLiftCoefficient :: "airfoil \<Rightarrow> real" where
  "calculateLiftCoefficient a =
     (let alpha = angleOfAttack a;
          baseOffset = (if airfoilType a = ''cambered'' then 0.2 else 0);
          stallAngle = 15
      in if alpha < -10 then -0.5
         else if alpha \<ge> -10 \<and> alpha \<le> stallAngle then baseOffset + 0.1 * alpha
         else if alpha > stallAngle \<and> alpha \<le> 20 then
           (let maxCL = baseOffset + 0.1 * stallAngle;
                reduction = (alpha - stallAngle) / 5
            in maxCL - (reduction * 0.8))
         else 0.5)"

text \<open>The local \<^verbatim>\<open>baseOffset\<close> of \<^verbatim>\<open>calculateLiftCoefficient\<close>.\<close>

definition baseOffset_of :: "airfoil \<Rightarrow> real" where
  "baseOffset_of a = (if airfoilType a = ''cambered'' then 0.2 else 0)"

text \<open>
  The lift coefficient of a foil as a function of the angle handed to
  \<^verbatim>\<open>setAngleOfAttack\<close> (the assignment of that setter; its repaint changes no field).
\<close>

definition liftCurve :: "airfoil \<Rightarrow> real \<Rightarrow> real" where
  "liftCurve a angle = calculateLiftCoefficient (a\<lparr>angleOfAttack := angle\<rparr>)"

subsection \<open>Construction\<close>

record airfoil_options =
  opt_angleOfAttack :: "real option"
  opt_airfoilType :: "string option"

definition AirfoilVisualization ::
    "document \<Rightarrow> real \<Rightarrow> string \<Rightarrow> airfoil_options
      \<Rightarrow> string list \<times> (error + airfoil object)" where
  "AirfoilVisualization doc dpr canvasId options =
     construct doc canvasId (\<lambda>cv c.
       \<lparr>ctx = c, width = canvas_width cv, height = canvas_height cv, devicePixelRatio = dpr,
        angleOfAttack = or_opt (opt_angleOfAttack options) 5,
        airfoilType = or_str (opt_airfoilType options) ''cambered''\<rparr>)"

text \<open>A cambered foil on an 800 by 400 canvas.\<close>

definition cambered_foil :: airfoil where
  "cambered_foil = \<lparr>ctx = 1, width = 800, height = 400, devicePixelRatio = 1,
                     angleOfAttack = 5, airfoilType = ''cambered''\<rparr>"

section \<open>Four-forces simulator (main.js, ForcesVisualization)\<close>

record forces = surface +
  lift :: real
  weight :: real
  thrust :: real
  drag :: real
  planeX :: real
  planeY :: real
  planeRotation :: real
  verticalVelocity :: real
  horizontalVelocity :: real

definition ForcesVisualization_update :: "real \<Rightarrow> forces \<Rightarrow> forces" where
  "ForcesVisualization_update deltaTime s =
     (let netVertical = lift s - weight s;
          netHorizontal = thrust s - drag s;
          velocityScale = 0.5;
          vv = verticalVelocity s + netVertical * velocityScale * deltaTime;
          hv = horizontalVelocity s + netHorizontal * velocityScale * deltaTime;
          vv = vv * 0.95;
          hv = hv * 0.95;
          py = planeY s - vv * deltaTime;
          px = planeX s + hv * deltaTime;
          padding = 100;
          px = max padding (min (pixelWidth s - padding) px);
          py = max padding (min (pixelHeight s - padding) py);
          targetRotation = - netVertical * 0.003;
          rot = planeRotation s + (targetRotation - planeRotation s) * 0.1
      in s\<lparr>verticalVelocity := vv, horizontalVelocity := hv,
            planeX := px, planeY := py, planeRotation := rot\<rparr>)"

text \<open>A fixed 16 ms step, in seconds as \<^verbatim>\<open>animate\<close> hands it to \<^verbatim>\<open>update\<close>.\<close>

definition step16 :: "forces \<Rightarrow> forces" where
  "step16 = ForcesVisualization_update 0.016"

subsection \<open>Construction\<close>

record forces_options =
  opt_lift :: "real option"
  opt_weight :: "real option"
  opt_thrust :: "real option"
  opt_drag :: "real option"

definition resetPlanePosition :: "forces \<Rightarrow> forces" where
  "resetPlanePosition s =
     s\<lparr>planeX := pixelWidth s / 2, planeY := pixelHeight s / 2, planeRotation := 0,
       verticalVelocity := 0, horizontalVelocity := 0\<rparr>"

definition ForcesVisualization ::
    "document \<Rightarrow> real \<Rightarrow> string \<Rightarrow> forces_options
      \<Rightarrow> string list \<times> (error + forces object)" where
  "ForcesVisualization doc dpr canvasId options =
     construct doc canvasId (\<lambda>cv c. resetPlanePosition
       \<lparr>ctx = c, width = canvas_width cv, height = canvas_height cv, devicePixelRatio = dpr,
        lift = or_opt (opt_lift options) 50,
        weight = or_opt (opt_weight options) 50,
        thrust = or_opt (opt_thrust options) 50,
        drag = or_opt (opt_drag options) 50,
        planeX = 0, planeY = 0, planeRotation = 0,
        verticalVelocity = 0, horizontalVelocity = 0\<rparr>)"

text \<open>Full lift against no weight on an 800 by 600 canvas, at rest in the centre.\<close>

definition climbing :: forces where
  "climbing = \<lparr>ctx = 1, width = 800, height = 600, devicePixelRatio = 1,
                lift = 100, weight = 0, thrust = 70, drag = 50,
                planeX = 400, planeY = 300, planeRotation = 0,
                verticalVelocity = 0, horizontalVelocity = 0\<rparr>"

section \<open>Flight-phases state machine (main.js, FlightPhasesVisualization)\<close>

text \<open>
  The fields of \<^verbatim>\<open>this.airplane\<close> carry the prefix \<open>airplane_\<close>.
  \<^verbatim>\<open>phaseSequence\<close> and \<^verbatim>\<open>phaseDuration\<close> are assigned once by the constructor.
\<close>

record phases = surface +
  currentPhase :: string
  phaseProgress :: real
  airplane_x :: real
  airplane_y :: real
  airplane_rotation :: real
  airplane_targetX :: real
  airplane_targetY :: real
  airplane_targetRotation :: real
  airplane_velocity :: real
  airplane_targetVelocity :: real
  groundLevel :: real
  runwayStart :: real
  runwayEnd :: real
  autoPlayEnabled :: bool
  currentPhaseIndex :: nat
  phaseStartTime :: real

definition phaseSequence :: "string list" where
  "phaseSequence = [''takeoff'', ''climb'', ''cruise'', ''descent'', ''landing'']"

definition phaseDuration :: real where
  "phaseDuration = 3000"

definition resetDimensions :: "phases \<Rightarrow> phases" where
  "resetDimensions s =
     s\<lparr>groundLevel := pixelHeight s - 80, runwayStart := 50, runwayEnd := pixelWidth s - 50\<rparr>"

text \<open>\<open>now\<close> is the value \<^verbatim>\<open>performance.now()\<close> returns inside \<^verbatim>\<open>setPhase\<close>.\<close>

definition setPhase :: "string \<Rightarrow> real \<Rightarrow> phases \<Rightarrow> phases" where
  "setPhase phase now s0 =
     (let s = s0\<lparr>currentPhase := phase, phaseProgress := 0, phaseStartTime := now\<rparr>;
          s = (if phase = ''takeoff'' then
                 s\<lparr>airplane_targetX := pixelWidth s * 0.2,
                   airplane_targetY := groundLevel s - 20,
                   airplane_targetRotation := 0,
                   airplane_targetVelocity := 60\<rparr>
               else if phase = ''climb'' then
                 s\<lparr>airplane_targetX := pixelWidth s * 0.35,
                   airplane_targetY := pixelHeight s * 0.4,
                   airplane_targetRotation := -15,
                   airplane_targetVelocity := 70\<rparr>
               else if phase = ''cruise'' then
                 s\<lparr>airplane_targetX := pixelWidth s * 0.5,
                   airplane_targetY := pixelHeight s * 0.3,
                   airplane_targetRotation := 0,
                   airplane_targetVelocity := 80\<rparr>
               else if phase = ''descent'' then
                 s\<lparr>airplane_targetX := pixelWidth s * 0.65,
                   airplane_targetY := pixelHeight s * 0.5,
                   airplane_targetRotation := 5,
                   airplane_targetVelocity := 65\<rparr>
               else if phase = ''landing'' then
                 s\<lparr>airplane_targetX := pixelWidth s * 0.8,
                   airplane_targetY := groundLevel s - 20,
                   airplane_targetRotation := 3,
                   airplane_targetVelocity := 50\<rparr>
               else s)
      in if airplane_x s = 0 \<and> airplane_y s = 0 then
           s\<lparr>airplane_x := airplane_targetX s,
             airplane_y := airplane_targetY s,
             airplane_rotation := airplane_targetRotation s,
             airplane_velocity := airplane_targetVelocity s\<rparr>
         else s)"

text \<open>
  \<^verbatim>\<open>update\<close> reads the clock up to three times: \<open>t1\<close> for \<^verbatim>\<open>elapsed\<close>, \<open>t2\<close>
  inside \<^verbatim>\<open>setPhase\<close> when the phase advances, \<open>t3\<close> for \<^verbatim>\<open>phaseProgress\<close>.
\<close>

definition FlightPhasesVisualization_update ::
    "real \<Rightarrow> real \<Rightarrow> real \<Rightarrow> real \<Rightarrow> phases \<Rightarrow> phases" where
  "FlightPhasesVisualization_update deltaTime t1 t2 t3 s0 =
     (let s = (if autoPlayEnabled s0 then
                 (let elapsed = t1 - phaseStartTime s0;
                      s = (if elapsed \<ge> phaseDuration then
                             (let s = s0\<lparr>currentPhaseIndex :=
                                          (currentPhaseIndex s0 + 1) mod length phaseSequence\<rparr>
                              in setPhase (phaseSequence ! currentPhaseIndex s) t2 s)
                           else s0)
                  in s\<lparr>phaseProgress := min ((t3 - phaseStartTime s) / phaseDuration) 1\<rparr>)
               else s0);
          smoothing = 0.05
      in s\<lparr>airplane_x := airplane_x s + (airplane_targetX s - airplane_x s) * smoothing,
            airplane_y := airplane_y s + (airplane_targetY s - airplane_y s) * smoothing,
            airplane_rotation :=
              airplane_rotation s + (airplane_targetRotation s - airplane_rotation s) * smoothing,
            airplane_velocity :=
              airplane_velocity s + (airplane_targetVelocity s - airplane_velocity s) * smoothing\<rparr>)"

text \<open>
  A run of frames: each frame is \<open>(deltaTime, t1, t2, t3)\<close>. A frame is an advancement step
  when the phase duration has elapsed at its first clock reading.
\<close>

fun run_updates :: "(real \<times> real \<times> real \<times> real) list \<Rightarrow> phases \<Rightarrow> phases" where
  "run_updates [] s = s"
| "run_updates ((deltaTime, t1, t2, t3) # fs) s =
     run_updates fs (FlightPhasesVisualization_update deltaTime t1 t2 t3 s)"

fun advancing :: "(real \<times> real \<times> real \<times> real) list \<Rightarrow> phases \<Rightarrow> bool" where
  "advancing [] s = True"
| "advancing ((deltaTime, t1, t2, t3) # fs) s =
     (t1 - phaseStartTime s \<ge> phaseDuration
      \<and> advancing fs (FlightPhasesVisualization_update deltaTime t1 t2 t3 s))"

text \<open>
  The number of advancement steps in a run of frames: the frames at which \<^verbatim>\<open>update\<close>
  enters its branch \<^verbatim>\<open>elapsed >= this.phaseDuration\<close>. The other frames of the run only
  smooth the pose.
\<close>

fun advancements :: "(real \<times> real \<times> real \<times> real) list \<Rightarrow> phases \<Rightarrow> nat" where
  "advancements [] s = 0"
| "advancements ((deltaTime, t1, t2, t3) # fs) s =
     (if autoPlayEnabled s \<and> t1 - phaseStartTime s \<ge> phaseDuration then 1 else 0)
     + advancements fs (FlightPhasesVisualization_update deltaTime t1 t2 t3 s)"

subsection \<open>Construction\<close>

text \<open>
  The fields the constructor assigns, followed by \<^verbatim>\<open>init()\<close>:
  \<^verbatim>\<open>resetDimensions()\<close>, then \<^verbatim>\<open>setPhase('cruise')\<close> with the clock reading \<open>now\<close>.
\<close>

definition initial_phases :: "canvas \<Rightarrow> nat \<Rightarrow> real \<Rightarrow> real \<Rightarrow> phases" where
  "initial_phases cv c dpr now =
     setPhase ''cruise'' now (resetDimensions
       \<lparr>ctx = c, width = canvas_width cv, height = canvas_height cv, devicePixelRatio = dpr,
        currentPhase = ''cruise'', phaseProgress = 0,
        airplane_x = 0, airplane_y = 0, airplane_rotation = 0,
        airplane_targetX = 0, airplane_targetY = 0, airplane_targetRotation = 0,
        airplane_velocity = 0, airplane_targetVelocity = 0,
        groundLevel = 0, runwayStart = 0, runwayEnd = 0,
        autoPlayEnabled = False, currentPhaseIndex = 2, phaseStartTime = 0\<rparr>)"

definition FlightPhasesVisualization ::
    "document \<Rightarrow> real \<Rightarrow> real \<Rightarrow> string \<Rightarrow> string list \<times> (error + phases object)" where
  "FlightPhasesVisualization doc dpr now canvasId =
     construct doc canvasId (\<lambda>cv c. initial_phases cv c dpr now)"

text \<open>
  The simulator as constructed on an 800 by 400 canvas at clock 0, and the same with
  autoplay switched on at clock 0 (the two assignments of \<^verbatim>\<open>toggleAutoPlay()\<close>).
\<close>

definition cruising :: phases where
  "cruising = initial_phases \<lparr>canvas_width = 800, canvas_height = 400, getContext2d = Some 1\<rparr> 1 1 0"

definition autoplaying :: phases where
  "autoplaying = cruising\<lparr>autoPlayEnabled := True, phaseStartTime := 0\<rparr>"

text \<open>Frames 3000 ms apart, each 16 ms long.\<close>

definition frame_at :: "real \<Rightarrow> real \<times> real \<times> real \<times> real" where
  "frame_at t = (0.016, t, t, t)"

definition four_intervals :: "(real \<times> real \<times> real \<times> real) list" where
  "four_intervals = [frame_at 3000, frame_at 6000, frame_at 9000, frame_at 12000]"

definition five_intervals :: "(real \<times> real \<times> real \<times> real) list" where
  "five_intervals = four_intervals @ [frame_at 15000]"

text \<open>
  A run as the animation loop produces it: a frame 16 ms after each advancement, and the
  next frame when the phase duration has elapsed.
\<close>

definition browser_run :: "(real \<times> real \<times> real \<times> real) list" where
  "browser_run = [frame_at 16, frame_at 3000, frame_at 3016, frame_at 6000, frame_at 6016,
                  frame_at 9000, frame_at 9016, frame_at 12000, frame_at 12016, frame_at 15000]"

section \<open>Control-surfaces simulator (controls.js)\<close>

record controls = surface +
  aileronDeflection :: real
  elevatorDeflection :: real
  rudderDeflection :: real
  centerX :: real
  centerY :: real
  rollAngle :: real
  pitchAngle :: real
  yawAngle :: real

record controls_options =
  opt_aileronDeflection :: "real option"
  opt_elevatorDeflection :: "real option"
  opt_rudderDeflection :: "real option"

definition resetPosition :: "controls \<Rightarrow> controls" where
  "resetPosition s = s\<lparr>centerX := pixelWidth s / 2, centerY := pixelHeight s / 2\<rparr>"

definition ControlSurfacesVisualization ::
    "document \<Rightarrow> real \<Rightarrow> string \<Rightarrow> controls_options
      \<Rightarrow> string list \<times> (error + controls object)" where
  "ControlSurfacesVisualization doc dpr canvasId options =
     construct doc canvasId (\<lambda>cv c. resetPosition
       \<lparr>ctx = c, width = canvas_width cv, height = canvas_height cv, devicePixelRatio = dpr,
        aileronDeflection = or_opt (opt_aileronDeflection options) 0,
        elevatorDeflection = or_opt (opt_elevatorDeflection options) 0,
        rudderDeflection = or_opt (opt_rudderDeflection options) 0,
        centerX = 0, centerY = 0, rollAngle = 0, pitchAngle = 0, yawAngle = 0\<rparr>)"

fun setControls :: "real \<Rightarrow> real \<Rightarrow> real \<Rightarrow> controls object \<Rightarrow> error + controls object" where
  "setControls aileron elevator rudder (Live s) =
     draw (Live (s\<lparr>aileronDeflection := aileron,
                    elevatorDeflection := elevator,
                    rudderDeflection := rudder,
                    rollAngle := - aileron * 0.8,
                    pitchAngle := - elevator * 0.5,
                    yawAngle := rudder * 0.6\<rparr>))"
| "setControls aileron elevator rudder (Inert this) =
     draw (Inert (this(''aileronDeflection'' \<mapsto> Num aileron,
                       ''elevatorDeflection'' \<mapsto> Num elevator,
                       ''rudderDeflection'' \<mapsto> Num rudder,
                       ''rollAngle'' \<mapsto> Num (- aileron * 0.8),
                       ''pitchAngle'' \<mapsto> Num (- elevator * 0.5),
                       ''yawAngle'' \<mapsto> Num (rudder * 0.6))))"

section \<open>Intro preview (intro.js)\<close>

text \<open>
  The fields of \<^verbatim>\<open>this.airplane\<close>, \<^verbatim>\<open>this.time\<close> and \<^verbatim>\<open>this.groundLevel\<close> carry
  the prefix \<open>intro_\<close>.
\<close>

record intro = surface +
  intro_time :: real
  intro_airplane_x :: real
  intro_airplane_y :: real
  intro_airplane_rotation :: real
  intro_airplane_onGround :: bool
  intro_groundLevel :: real
  forceAlpha :: real

definition intro_resetDimensions :: "intro \<Rightarrow> intro" where
  "intro_resetDimensions s0 =
     (let s = s0\<lparr>intro_groundLevel := pixelHeight s0 - 60\<rparr>;
          s = s\<lparr>intro_airplane_x := pixelWidth s * 0.2\<rparr>
      in s\<lparr>intro_airplane_y := intro_groundLevel s - 15\<rparr>)"

definition IntroVisualization ::
    "document \<Rightarrow> real \<Rightarrow> string \<Rightarrow> string list \<times> (error + intro object)" where
  "IntroVisualization doc dpr canvasId =
     construct doc canvasId (\<lambda>cv c. intro_resetDimensions
       \<lparr>ctx = c, width = canvas_width cv, height = canvas_height cv, devicePixelRatio = dpr,
        intro_time = 0, intro_airplane_x = 0, intro_airplane_y = 0,
        intro_airplane_rotation = 0, intro_airplane_onGround = True,
        intro_groundLevel = 0, forceAlpha = 0\<rparr>)"

section \<open>The Bernoulli model: continuity and total pressure\<close>

lemmas geometry = tubeTop_def tubeBottom_def throatTop_def throatBottom_def
  throatStart_def throatEnd_def

lemma fin_arith:
  "Fin a - Fin c = Fin (a - c)"
  "(Fin a \<le> Fin c) = (a \<le> c)"
  by (auto simp add: minus_num_def less_eq_num_def)

lemma pixelWidth_nonzero: "width s \<noteq> 0 \<Longrightarrow> pixelWidth s \<noteq> 0"
  by (simp add: pixelWidth_def or_num_def)

lemma pixelHeight_nonzero: "height s \<noteq> 0 \<Longrightarrow> pixelHeight s \<noteq> 0"
  by (simp add: pixelHeight_def or_num_def)

text \<open>
  On a surface of non-zero width the channel height is a positive multiple of
  \<open>pixelHeight\<close> at every position, inside the duct and beyond its ends.
\<close>

lemma getTubeHeightAt_positive:
  assumes "width b \<noteq> 0"
  shows "\<exists>tp bt k. getTubeHeightAt b x = (Fin tp, Fin bt) \<and> 0 < k \<and> bt - tp = k * pixelHeight b"
proof -
  have pw: "pixelWidth b \<noteq> 0" using assms by (rule pixelWidth_nonzero)
  define n where "n = x / pixelWidth b"
  have jd: "Fin x / Fin (pixelWidth b) = Fin n" using pw by (simp add: n_def)
  consider "n < 0.35" | "0.35 \<le> n \<and> n \<le> 0.65" | "n > 0.65" by linarith
  then show ?thesis
  proof cases
    case 1
    define t where "t = n / 0.35"
    have "getTubeHeightAt b x
          = (Fin ((0.3 + 0.1 * t) * pixelHeight b), Fin ((0.7 - 0.1 * t) * pixelHeight b))"
      using 1 by (simp only: getTubeHeightAt_def jd) (simp add: geometry Let_def t_def fin_arith)
    moreover have "(0.7 - 0.1 * t) * pixelHeight b - (0.3 + 0.1 * t) * pixelHeight b
                   = (0.4 - 0.2 * t) * pixelHeight b"
      by (simp add: algebra_simps)
    moreover have "0 < 0.4 - 0.2 * t" using 1 by (simp add: t_def)
    ultimately show ?thesis by blast
  next
    case 2
    have "getTubeHeightAt b x = (Fin (0.4 * pixelHeight b), Fin (0.6 * pixelHeight b))"
      using 2 by (simp only: getTubeHeightAt_def jd) (simp add: geometry Let_def fin_arith)
    moreover have "0.6 * pixelHeight b - 0.4 * pixelHeight b = 0.2 * pixelHeight b"
      by simp
    moreover have "(0::real) < 0.2" by simp
    ultimately show ?thesis by blast
  next
    case 3
    define t where "t = (n - 0.65) / 0.35"
    have "getTubeHeightAt b x
          = (Fin ((0.4 - 0.1 * t) * pixelHeight b), Fin ((0.6 + 0.1 * t) * pixelHeight b))"
      using 3 by (simp only: getTubeHeightAt_def jd) (simp add: geometry Let_def t_def fin_arith)
    moreover have "(0.6 + 0.1 * t) * pixelHeight b - (0.4 - 0.1 * t) * pixelHeight b
                   = (0.2 + 0.2 * t) * pixelHeight b"
      by (simp add: algebra_simps)
    moreover have "0 < 0.2 + 0.2 * t" using 3 by (simp add: t_def field_simps)
    ultimately show ?thesis by blast
  qed
qed

lemma getVelocityAt_value:
  assumes "width b \<noteq> 0" and "height b \<noteq> 0"
  shows "\<exists>tp bt. getTubeHeightAt b x = (Fin tp, Fin bt) \<and> bt - tp \<noteq> 0
           \<and> getVelocityAt b x = Fin (baseVelocity b * (entranceHeight b / (bt - tp)))"
proof -
  obtain tp bt k where h: "getTubeHeightAt b x = (Fin tp, Fin bt)" "0 < k" "bt - tp = k * pixelHeight b"
    using getTubeHeightAt_positive[OF assms(1)] by blast
  have hz: "bt - tp \<noteq> 0" using h(2,3) pixelHeight_nonzero[OF assms(2)] by simp
  have "getVelocityAt b x = Fin (baseVelocity b * (entranceHeight b / (bt - tp)))"
    using hz by (simp add: getVelocityAt_def h(1) fin_arith)
  then show ?thesis using h(1) hz by blast
qed

text \<open>
  The degenerate canvases. With width 0 the normalised position is an infinity, both
  walls are infinite and the local speed is the finite Number 0, so the pressure is the
  total pressure; at \<open>x = 0\<close> the position is \<open>0 / 0\<close> and everything is NaN. With
  height 0 the speed is \<open>0 / 0\<close>.
\<close>

lemma getVelocityAt_zero_width:
  assumes "width b = 0" and "x \<noteq> 0" and "height b \<noteq> 0"
  shows "getVelocityAt b x = Fin 0"
proof -
  have pw: "pixelWidth b = 0" using assms(1) by (simp add: pixelWidth_def)
  have ph: "pixelHeight b \<noteq> 0" using assms(3) by (rule pixelHeight_nonzero)
  show ?thesis
    using assms(2) ph
    by (auto simp add: getVelocityAt_def getTubeHeightAt_def pw geometry Let_def
        less_eq_num_def minus_num_def sgn_if)
qed

lemma getPressureAt_zero_width:
  assumes "width b = 0" and "x \<noteq> 0" and "height b \<noteq> 0"
  shows "getPressureAt b x = Fin (ATMOSPHERIC_PRESSURE + 0.5 * AIR_DENSITY * (baseVelocity b)\<^sup>2)"
  by (simp add: getPressureAt_def getVelocityAt_zero_width[OF assms] minus_num_def)

lemma getVelocityAt_zero_width_at_0:
  assumes "width b = 0"
  shows "getVelocityAt b 0 = NaN"
proof -
  have pw: "pixelWidth b = 0" using assms(1) by (simp add: pixelWidth_def)
  show ?thesis
    by (simp add: getVelocityAt_def getTubeHeightAt_def pw geometry Let_def
        less_eq_num_def minus_num_def)
qed

lemma getVelocityAt_zero_height:
  assumes "width b \<noteq> 0" and "height b = 0"
  shows "getVelocityAt b x = NaN"
proof -
  have pw: "pixelWidth b \<noteq> 0" using assms(1) by (rule pixelWidth_nonzero)
  have ph: "pixelHeight b = 0" using assms(2) by (simp add: pixelHeight_def)
  show ?thesis
    using pw
    by (simp add: getVelocityAt_def getTubeHeightAt_def ph geometry Let_def
        less_eq_num_def minus_num_def entranceHeight_def)
qed

lemma getPressureAt_value:
  assumes "getVelocityAt b x = Fin v"
  shows "getPressureAt b x = Fin (ATMOSPHERIC_PRESSURE
            + 0.5 * AIR_DENSITY * (baseVelocity b)\<^sup>2 - 0.5 * AIR_DENSITY * v\<^sup>2)"
  using assms by (simp add: getPressureAt_def fin_arith)

lemma velocity_entrance:
  assumes "width b \<noteq> 0" and "height b \<noteq> 0"
  shows "getVelocityAt b (entranceX b) = Fin (baseVelocity b * (14 / 11))"
proof -
  have pw: "pixelWidth b \<noteq> 0" using assms(1) by (rule pixelWidth_nonzero)
  have ph: "pixelHeight b \<noteq> 0" using assms(2) by (rule pixelHeight_nonzero)
  have jd: "Fin (entranceX b) / Fin (pixelWidth b) = Fin 0.15"
    using pw by (simp add: entranceX_def)
  have th: "getTubeHeightAt b (entranceX b)
      = (Fin ((0.3 + 0.1 * (0.15 / 0.35)) * pixelHeight b),
         Fin ((0.7 - 0.1 * (0.15 / 0.35)) * pixelHeight b))"
    by (simp only: getTubeHeightAt_def jd) (simp add: geometry Let_def fin_arith)
  have eq: "(0.7 - 0.1 * (0.15 / 0.35)) * pixelHeight b
            - (0.3 + 0.1 * (0.15 / 0.35)) * pixelHeight b = (11 / 35) * pixelHeight b"
    by (simp add: algebra_simps)
  show ?thesis
    unfolding getVelocityAt_def th
    using ph by (simp add: eq fin_arith entranceHeight_def geometry del: distrib_right_numeral)
qed

lemma velocity_throat:
  assumes "width b \<noteq> 0" and "height b \<noteq> 0"
  shows "getVelocityAt b (throatX b) = Fin (baseVelocity b * 2)"
proof -
  have pw: "pixelWidth b \<noteq> 0" using assms(1) by (rule pixelWidth_nonzero)
  have ph: "pixelHeight b \<noteq> 0" using assms(2) by (rule pixelHeight_nonzero)
  have jd: "Fin (throatX b) / Fin (pixelWidth b) = Fin 0.5"
    using pw by (simp add: throatX_def)
  have th: "getTubeHeightAt b (throatX b) = (Fin (0.4 * pixelHeight b), Fin (0.6 * pixelHeight b))"
    by (simp only: getTubeHeightAt_def jd) (simp add: geometry Let_def fin_arith)
  have eq: "0.6 * pixelHeight b - 0.4 * pixelHeight b = (1 / 5) * pixelHeight b"
    by simp
  show ?thesis
    unfolding getVelocityAt_def th
    using ph by (simp add: eq fin_arith entranceHeight_def geometry del: distrib_right_numeral)
qed

lemma velocity_exit:
  assumes "width b \<noteq> 0" and "height b \<noteq> 0"
  shows "getVelocityAt b (exitX b) = Fin (baseVelocity b * (14 / 11))"
proof -
  have pw: "pixelWidth b \<noteq> 0" using assms(1) by (rule pixelWidth_nonzero)
  have ph: "pixelHeight b \<noteq> 0" using assms(2) by (rule pixelHeight_nonzero)
  have jd: "Fin (exitX b) / Fin (pixelWidth b) = Fin 0.85"
    using pw by (simp add: exitX_def)
  have th: "getTubeHeightAt b (exitX b)
      = (Fin ((0.4 + (0.3 - 0.4) * ((0.85 - 0.65) / (1 - 0.65))) * pixelHeight b),
         Fin ((0.6 + (0.7 - 0.6) * ((0.85 - 0.65) / (1 - 0.65))) * pixelHeight b))"
    by (simp only: getTubeHeightAt_def jd) (simp add: geometry Let_def fin_arith)
  have eq: "(0.6 + (0.7 - 0.6) * ((0.85 - 0.65) / (1 - 0.65))) * pixelHeight b
            - (0.4 + (0.3 - 0.4) * ((0.85 - 0.65) / (1 - 0.65))) * pixelHeight b
            = (11 / 35) * pixelHeight b"
    by (simp add: algebra_simps)
  show ?thesis
    unfolding getVelocityAt_def th
    using ph by (simp add: eq fin_arith entranceHeight_def geometry del: distrib_right_numeral)
qed

lemma venturi50_surface: "width venturi50 \<noteq> 0 \<and> height venturi50 \<noteq> 0"
  by (simp add: venturi50_def)

text \<open>
  C2. Static pressure plus dynamic pressure at the local speed is the same constant at
  every position (the atmospheric constant plus the dynamic pressure at the reference
  speed); for a positive reference speed the pressure at the throat sample position is
  strictly below the pressure at the entrance sample position, and the pressures at the
  entrance and exit sample positions are equal.
\<close>

theorem total_pressure_conserved:
  assumes "width b \<noteq> 0" and "height b \<noteq> 0"
  shows "(\<exists>p v. getPressureAt b x = Fin p \<and> getVelocityAt b x = Fin v
            \<and> p + 0.5 * AIR_DENSITY * v\<^sup>2
                = ATMOSPHERIC_PRESSURE + 0.5 * AIR_DENSITY * (baseVelocity b)\<^sup>2)
       \<and> (0 < baseVelocity b \<longrightarrow>
            (\<exists>pe pt px. getPressureAt b (entranceX b) = Fin pe
               \<and> getPressureAt b (throatX b) = Fin pt
               \<and> getPressureAt b (exitX b) = Fin px
               \<and> pt < pe \<and> pe = px))"
proof (intro conjI impI)
  obtain v where v: "getVelocityAt b x = Fin v"
    using getVelocityAt_value[OF assms] by blast
  show "\<exists>p v. getPressureAt b x = Fin p \<and> getVelocityAt b x = Fin v
            \<and> p + 0.5 * AIR_DENSITY * v\<^sup>2
                = ATMOSPHERIC_PRESSURE + 0.5 * AIR_DENSITY * (baseVelocity b)\<^sup>2"
    using getPressureAt_value[OF v] v by simp
next
  assume pos: "0 < baseVelocity b"
  let ?v = "baseVelocity b"
  let ?total = "ATMOSPHERIC_PRESSURE + 0.5 * AIR_DENSITY * ?v\<^sup>2"
  have pe: "getPressureAt b (entranceX b) = Fin (?total - 0.5 * AIR_DENSITY * (?v * (14 / 11))\<^sup>2)"
    by (rule getPressureAt_value[OF velocity_entrance[OF assms]])
  have pt: "getPressureAt b (throatX b) = Fin (?total - 0.5 * AIR_DENSITY * (?v * 2)\<^sup>2)"
    by (rule getPressureAt_value[OF velocity_throat[OF assms]])
  have px: "getPressureAt b (exitX b) = Fin (?total - 0.5 * AIR_DENSITY * (?v * (14 / 11))\<^sup>2)"
    by (rule getPressureAt_value[OF velocity_exit[OF assms]])
  have v2: "0 < ?v\<^sup>2" using pos by simp
  have a: "(?v * (14 / 11))\<^sup>2 = ?v\<^sup>2 * (14 / 11)\<^sup>2" by (rule power_mult_distrib)
  have c: "(?v * 2)\<^sup>2 = ?v\<^sup>2 * 2\<^sup>2" by (rule power_mult_distrib)
  have "(14 / 11 :: real)\<^sup>2 < 2\<^sup>2" by (simp add: power2_eq_square)
  then have "?v\<^sup>2 * (14 / 11)\<^sup>2 < ?v\<^sup>2 * 2\<^sup>2" using v2 by (rule mult_strict_left_mono)
  then have "(?v * (14 / 11))\<^sup>2 < (?v * 2)\<^sup>2" by (simp only: a c)
  then have "?total - 0.5 * AIR_DENSITY * (?v * 2)\<^sup>2
             < ?total - 0.5 * AIR_DENSITY * (?v * (14 / 11))\<^sup>2"
    by (simp add: AIR_DENSITY_def)
  then show "\<exists>pe pt px. getPressureAt b (entranceX b) = Fin pe
               \<and> getPressureAt b (throatX b) = Fin pt
               \<and> getPressureAt b (exitX b) = Fin px
               \<and> pt < pe \<and> pe = px"
    using pe pt px by simp
qed

theorem total_pressure_conserved_witness:
  "width venturi50 \<noteq> 0 \<and> height venturi50 \<noteq> 0 \<and> 0 < baseVelocity venturi50
   \<and> (\<exists>p v. getPressureAt venturi50 100 = Fin p \<and> getVelocityAt venturi50 100 = Fin v
         \<and> p + 0.5 * AIR_DENSITY * v\<^sup>2
             = ATMOSPHERIC_PRESSURE + 0.5 * AIR_DENSITY * (baseVelocity venturi50)\<^sup>2)
   \<and> (\<exists>pe pt px. getPressureAt venturi50 (entranceX venturi50) = Fin pe
         \<and> getPressureAt venturi50 (throatX venturi50) = Fin pt
         \<and> getPressureAt venturi50 (exitX venturi50) = Fin px
         \<and> pt < pe \<and> pe = px)"
proof -
  have v: "0 < baseVelocity venturi50" by (simp add: venturi50_def)
  show ?thesis
    using total_pressure_conserved[of venturi50 100] venturi50_surface v by blast
qed

text \<open>
  C5 as stated fails: with \<^verbatim>\<open>baseVelocity = 50\<close> the pressure at the entrance sample
  position is not the atmospheric constant plus the dynamic pressure at 50 m/s. That sum
  is the total pressure; the flow at the sample position already runs at 50 * 14 / 11 m/s
  and the static pressure there is lower.
\<close>

theorem entrance_pressure_counterexample:
  "getPressureAt venturi50 (entranceX venturi50)
   \<noteq> Fin (ATMOSPHERIC_PRESSURE + 0.5 * AIR_DENSITY * 50\<^sup>2)"
proof -
  have "getVelocityAt venturi50 (entranceX venturi50) = Fin (baseVelocity venturi50 * (14 / 11))"
    using velocity_entrance[of venturi50] venturi50_surface by blast
  then have "getPressureAt venturi50 (entranceX venturi50)
     = Fin (ATMOSPHERIC_PRESSURE + 0.5 * AIR_DENSITY * (baseVelocity venturi50)\<^sup>2
             - 0.5 * AIR_DENSITY * (baseVelocity venturi50 * (14 / 11))\<^sup>2)"
    by (rule getPressureAt_value)
  then show ?thesis
    by (simp add: venturi50_def AIR_DENSITY_def ATMOSPHERIC_PRESSURE_def)
qed

text \<open>
  C5, amended. With \<^verbatim>\<open>baseVelocity = 50\<close> the pressure at the entrance sample position
  plus the dynamic pressure at the local speed there (50 * 14 / 11 m/s) equals the
  atmospheric constant 101325 plus the dynamic pressure at 50 m/s, and the pressure at the
  throat sample position is strictly lower than the pressure at the entrance sample
  position.
\<close>

theorem entrance_total_pressure_at_50:
  assumes "width b \<noteq> 0" and "height b \<noteq> 0" and "baseVelocity b = 50"
  shows "\<exists>pe pt. getPressureAt b (entranceX b) = Fin pe
           \<and> getVelocityAt b (entranceX b) = Fin (50 * 14 / 11)
           \<and> pe + 0.5 * 1.225 * (50 * 14 / 11)\<^sup>2 = 101325 + 0.5 * 1.225 * 50\<^sup>2
           \<and> getPressureAt b (throatX b) = Fin pt
           \<and> pt < pe"
proof -
  have ve: "getVelocityAt b (entranceX b) = Fin (50 * (14 / 11))"
    using velocity_entrance[OF assms(1,2)] assms(3) by simp
  have vt: "getVelocityAt b (throatX b) = Fin (50 * 2)"
    using velocity_throat[OF assms(1,2)] assms(3) by simp
  define PE :: real where
    "PE = 101325 + 0.5 * 1.225 * 50\<^sup>2 - 0.5 * 1.225 * (50 * (14 / 11))\<^sup>2"
  define PT :: real where
    "PT = 101325 + 0.5 * 1.225 * 50\<^sup>2 - 0.5 * 1.225 * (50 * 2)\<^sup>2"
  have pe: "getPressureAt b (entranceX b) = Fin PE"
    using getPressureAt_value[OF ve] assms(3)
    by (simp add: AIR_DENSITY_def ATMOSPHERIC_PRESSURE_def PE_def)
  have pt: "getPressureAt b (throatX b) = Fin PT"
    using getPressureAt_value[OF vt] assms(3)
    by (simp add: AIR_DENSITY_def ATMOSPHERIC_PRESSURE_def PT_def)
  have lt: "PT < PE" by (simp add: PE_def PT_def power2_eq_square)
  have tot: "PE + 0.5 * 1.225 * (50 * 14 / 11)\<^sup>2 = 101325 + 0.5 * 1.225 * 50\<^sup>2"
    by (simp add: PE_def)
  have ve': "getVelocityAt b (entranceX b) = Fin (50 * 14 / 11)" using ve by simp
  show ?thesis using pe pt ve' lt tot by blast
qed

theorem entrance_total_pressure_at_50_witness:
  "width venturi50 \<noteq> 0 \<and> height venturi50 \<noteq> 0 \<and> baseVelocity venturi50 = 50
   \<and> (\<exists>pe pt. getPressureAt venturi50 (entranceX venturi50) = Fin pe
         \<and> getVelocityAt venturi50 (entranceX venturi50) = Fin (50 * 14 / 11)
         \<and> pe + 0.5 * 1.225 * (50 * 14 / 11)\<^sup>2 = 101325 + 0.5 * 1.225 * 50\<^sup>2
         \<and> getPressureAt venturi50 (throatX venturi50) = Fin pt
         \<and> pt < pe)"
proof -
  have v: "baseVelocity venturi50 = 50" by (simp add: venturi50_def)
  show ?thesis
    using entrance_total_pressure_at_50[of venturi50] venturi50_surface v by blast
qed

section \<open>The continuity relation in binary64\<close>

text \<open>
  The default simulator (800 by 400 canvas, pixel ratio 2, 50 m/s) at the position
  \<open>x = 3\<close>, evaluated step by step.
\<close>

lemma pixels64_default:
  "pixelWidth64 venturi50 = Fin 400"
  "pixelHeight64 venturi50 = Fin 200"
  by code_simp+

lemma normalizedX64_at_3: "div64 (Fin 3) (Fin 400) = Fin (1080863910568919 / 144115188075855872)"
  by code_simp

lemma converging64_at_3: "(Fin (1080863910568919 / 144115188075855872) < lit64 throatStart) = True"
  by code_simp

lemma t64_at_3: "div64 (Fin (1080863910568919 / 144115188075855872)) (lit64 throatStart) = Fin (3088182601625483 / 144115188075855872)"
  by code_simp

lemma top64_at_3:
  "mul64 (add64 (lit64 tubeTop) (mul64 (sub64 (lit64 throatTop) (lit64 tubeTop)) (Fin (3088182601625483 / 144115188075855872))))
     (Fin 200) = Fin (4252282683878839 / 70368744177664)"
  by code_simp

lemma bottom64_at_3:
  "mul64 (sub64 (lit64 tubeBottom) (mul64 (sub64 (lit64 tubeBottom) (lit64 throatBottom)) (Fin (3088182601625483 / 144115188075855872))))
     (Fin 200) = Fin (1227683268956745 / 8796093022208)"
  by code_simp

lemma tube64_at_3:
  "getTubeHeightAt64 venturi50 3 = (Fin (4252282683878839 / 70368744177664), Fin (1227683268956745 / 8796093022208))"
  unfolding getTubeHeightAt64_def pixels64_default Let_def normalizedX64_at_3 converging64_at_3
    t64_at_3 top64_at_3 bottom64_at_3
  by simp

lemma entranceHeight64_default: "entranceHeight64 venturi50 = Fin 80"
  unfolding entranceHeight64_def pixels64_default by code_simp

lemma currentHeight64_at_3:
  "currentHeight64 venturi50 3 = Fin (5569183467775121 / 70368744177664)"
  unfolding currentHeight64_def tube64_at_3 by code_simp

lemma velocity64_at_3:
  "getVelocityAt64 venturi50 3 = Fin (1778271513514975 / 35184372088832)"
  unfolding getVelocityAt64_def entranceHeight64_default currentHeight64_at_3 by code_simp

lemma baseVelocity_default: "baseVelocity venturi50 = 50"
  by (simp add: venturi50_def)

lemma products64_at_3:
  "mul64 (entranceHeight64 venturi50) (Fin (baseVelocity venturi50)) = Fin 4000"
  "mul64 (currentHeight64 venturi50 3) (getVelocityAt64 venturi50 3) = Fin (4000 - 1 / 2 ^ 41)"
  unfolding entranceHeight64_default currentHeight64_at_3 velocity64_at_3 baseVelocity_default
  by code_simp+

text \<open>The rounding error of \<open>round64\<close>, and what it leaves of the continuity relation.\<close>

lemma pow2_powi: "pow2 e = 2 powi e"
  by (auto simp add: pow2_def power_int_def inverse_eq_divide power_one_over)

lemma pow2_pos: "0 < pow2 e"
  by (simp add: pow2_powi)

lemma pow2_add: "pow2 (i + j) = pow2 i * pow2 j"
  by (simp add: pow2_powi power_int_add)

lemma pow2_values:
  "pow2 0 = 1" "pow2 1 = 2" "pow2 (- 1) = 1 / 2" "pow2 (- 52) = 1 / 2 ^ 52"
  by (simp_all add: pow2_def)

lemma round_even_error: "\<bar>of_int (round_even m) - m\<bar> \<le> 1 / 2"
proof -
  have "of_int \<lfloor>m\<rfloor> \<le> m" and "m < of_int \<lfloor>m\<rfloor> + 1" by linarith+
  then show ?thesis
    by (auto simp add: round_even_def Let_def)
qed

lemma halvings_le: "1 \<le> a \<Longrightarrow> pow2 (halvings n a) \<le> a"
proof (induction n arbitrary: a)
  case 0
  then show ?case by (simp add: pow2_values)
next
  case (Suc n)
  show ?case
  proof (cases "a < 2")
    case True
    then show ?thesis using Suc.prems by (simp add: pow2_values)
  next
    case False
    then have "1 \<le> a / 2" by simp
    then have "pow2 (halvings n (a / 2)) \<le> a / 2" by (rule Suc.IH)
    moreover have "pow2 (1 + halvings n (a / 2)) = 2 * pow2 (halvings n (a / 2))"
      by (simp only: pow2_add pow2_values)
    ultimately show ?thesis using False by simp
  qed
qed

lemma doublings_le: "0 < a \<Longrightarrow> 1 / 2 ^ n \<le> a \<Longrightarrow> pow2 (doublings n a) \<le> a"
proof (induction n arbitrary: a)
  case 0
  then show ?case by (simp add: pow2_values)
next
  case (Suc n)
  show ?case
  proof (cases "1 \<le> a")
    case True
    then show ?thesis by (simp add: pow2_values)
  next
    case False
    have "0 < a * 2" using Suc.prems(1) by simp
    moreover have "1 / 2 ^ n \<le> a * 2" using Suc.prems(2) by (simp add: field_simps)
    ultimately have "pow2 (doublings n (a * 2)) \<le> a * 2" by (rule Suc.IH)
    moreover have "pow2 (doublings n (a * 2) - 1) = pow2 (doublings n (a * 2)) / 2"
      using pow2_add[of "doublings n (a * 2)" "- 1"] by (simp add: pow2_values)
    ultimately show ?thesis using False by simp
  qed
qed

lemma exponent2_le:
  assumes "0 < a" and "1 / 2 ^ 1100 \<le> a"
  shows "pow2 (exponent2 a) \<le> a"
  using assms halvings_le[of a 1100] doublings_le[of a 1100]
  by (simp add: exponent2_def)

text \<open>
  The rounding error of \<open>round64\<close> is at most the fraction \<open>2 ^ -53\<close> of the rounded
  number, for every number that is zero or not below \<open>2 ^ -1100\<close> in magnitude.
\<close>

lemma round64_relative_error:
  assumes "x = 0 \<or> 1 / 2 ^ 1100 \<le> \<bar>x\<bar>"
  shows "\<bar>round64 x - x\<bar> \<le> \<bar>x\<bar> / 2 ^ 53"
proof (cases "x = 0")
  case True
  then show ?thesis by (simp add: round64_def)
next
  case False
  define a where "a = \<bar>x\<bar>"
  define e where "e = exponent2 a"
  define k where "k = round_even (a * pow2 (52 - e))"
  have a: "0 < a" "1 / 2 ^ 1100 \<le> a" using False assms by (simp_all add: a_def)
  have le: "pow2 e \<le> a" unfolding e_def using a by (rule exponent2_le)
  have inv: "pow2 (52 - e) * pow2 (e - 52) = 1"
    using pow2_add[of "52 - e" "e - 52"] by (simp add: pow2_values)
  have p53: "pow2 (e - 52) = pow2 e / 2 ^ 52"
    using pow2_add[of e "- 52"] by (simp add: pow2_values)
  have "\<bar>of_int k * pow2 (e - 52) - a\<bar> = \<bar>(of_int k - a * pow2 (52 - e)) * pow2 (e - 52)\<bar>"
    using inv by (simp add: algebra_simps)
  also have "\<dots> = \<bar>of_int k - a * pow2 (52 - e)\<bar> * pow2 (e - 52)"
    using pow2_pos[of "e - 52"] by (simp add: abs_mult)
  also have "\<dots> \<le> (1 / 2) * pow2 (e - 52)"
    unfolding k_def using round_even_error pow2_pos[of "e - 52"]
    by (intro mult_right_mono) simp_all
  also have "\<dots> = pow2 e / 2 ^ 53" by (simp add: p53)
  also have "\<dots> \<le> a / 2 ^ 53" using le by (simp add: divide_right_mono)
  finally have bound: "\<bar>of_int k * pow2 (e - 52) - a\<bar> \<le> a / 2 ^ 53" .
  have r: "round64 x = (if 0 < x then of_int k * pow2 (e - 52) else - (of_int k * pow2 (e - 52)))"
    using False by (simp add: round64_def Let_def a_def e_def k_def)
  show ?thesis
  proof (cases "0 < x")
    case True
    then show ?thesis using bound r by (simp add: a_def)
  next
    case neg: False
    then have "x = - a" using False by (simp add: a_def)
    then have "\<bar>round64 x - x\<bar> = \<bar>of_int k * pow2 (e - 52) - a\<bar>"
      using r neg by (simp add: abs_minus_commute)
    then show ?thesis using bound by (simp add: a_def)
  qed
qed

lemma rounded_products_close:
  fixes ch base q q' v l r :: real
  assumes q': "\<bar>q' - q\<bar> \<le> \<bar>q\<bar> / 2 ^ 53"
    and v: "\<bar>v - base * q'\<bar> \<le> \<bar>base * q'\<bar> / 2 ^ 53"
    and r: "\<bar>r - ch * v\<bar> \<le> \<bar>ch * v\<bar> / 2 ^ 53"
    and l: "\<bar>l - ch * base * q\<bar> \<le> \<bar>ch * base * q\<bar> / 2 ^ 53"
  shows "\<bar>l - r\<bar> \<le> 5 / 2 ^ 53 * \<bar>ch * base * q\<bar>"
proof -
  have "\<bar>ch * base * q' - ch * base * q\<bar> = \<bar>ch * base\<bar> * \<bar>q' - q\<bar>"
    by (simp add: abs_mult[symmetric] algebra_simps)
  also have "\<dots> \<le> \<bar>ch * base\<bar> * (\<bar>q\<bar> / 2 ^ 53)"
    using q' by (intro mult_left_mono) simp_all
  also have "\<dots> = \<bar>ch * base * q\<bar> / 2 ^ 53" by (simp add: abs_mult)
  finally have f1: "\<bar>ch * base * q' - ch * base * q\<bar> \<le> \<bar>ch * base * q\<bar> / 2 ^ 53" .
  have "\<bar>ch * v - ch * base * q'\<bar> = \<bar>ch\<bar> * \<bar>v - base * q'\<bar>"
    by (simp add: abs_mult[symmetric] algebra_simps)
  also have "\<dots> \<le> \<bar>ch\<bar> * (\<bar>base * q'\<bar> / 2 ^ 53)"
    using v by (intro mult_left_mono) simp_all
  also have "\<dots> = \<bar>ch * base * q'\<bar> / 2 ^ 53" by (simp add: abs_mult)
  finally have f2: "\<bar>ch * v - ch * base * q'\<bar> \<le> \<bar>ch * base * q'\<bar> / 2 ^ 53" .
  define P A B where "P = \<bar>ch * base * q\<bar>" and "A = \<bar>ch * base * q'\<bar>" and "B = \<bar>ch * v\<bar>"
  define d1 d2 d3 d4 where "d1 = \<bar>l - ch * base * q\<bar>"
    and "d2 = \<bar>ch * base * q' - ch * base * q\<bar>"
    and "d3 = \<bar>ch * v - ch * base * q'\<bar>" and "d4 = \<bar>r - ch * v\<bar>"
  have b1: "d1 \<le> P / 2 ^ 53" using l by (simp add: d1_def P_def)
  have b2: "d2 \<le> P / 2 ^ 53" using f1 by (simp add: d2_def P_def)
  have b3: "d3 \<le> A / 2 ^ 53" using f2 by (simp add: d3_def A_def)
  have b4: "d4 \<le> B / 2 ^ 53" using r by (simp add: d4_def B_def)
  have P0: "0 \<le> P" by (simp add: P_def)
  have tA: "A \<le> P + d2" unfolding A_def P_def d2_def by linarith
  have tB: "B \<le> A + d3" unfolding B_def A_def d3_def by linarith
  have tri: "\<bar>l - r\<bar> \<le> d1 + d2 + d3 + d4" unfolding d1_def d2_def d3_def d4_def by linarith
  have "d1 + d2 + d3 + d4 \<le> 5 / 2 ^ 53 * P" using b1 b2 b3 b4 tA tB P0 by simp
  then show ?thesis using tri by (simp add: P_def)
qed

lemma normal64_error:
  assumes "normal64 x"
  shows "\<bar>round64 x - x\<bar> \<le> \<bar>x\<bar> / 2 ^ 53"
proof -
  have "(1::real) / 2 ^ 1100 \<le> 1 / 2 ^ 1022"
    by (intro divide_left_mono power_increasing) simp_all
  then have "x = 0 \<or> 1 / 2 ^ 1100 \<le> \<bar>x\<bar>"
    using assms unfolding normal64_def by linarith
  then show ?thesis by (rule round64_relative_error)
qed

text \<open>
  The tolerance in binary64: whenever the two heights are finite, the local height is not
  zero and the four rounded quantities are zero or normal numbers, the computed products
  differ by at most the fraction \<open>5 / 2 ^ 53\<close> of the exact product.
\<close>

lemma continuity_binary64_tolerance:
  assumes eh: "entranceHeight64 b = Fin eh" and ch: "currentHeight64 b x = Fin ch"
    and nz: "ch \<noteq> 0"
    and n1: "normal64 (eh / ch)"
    and n2: "normal64 (baseVelocity b * round64 (eh / ch))"
    and n3: "normal64 (ch * round64 (baseVelocity b * round64 (eh / ch)))"
    and n4: "normal64 (eh * baseVelocity b)"
  shows "\<exists>l r. mul64 (entranceHeight64 b) (Fin (baseVelocity b)) = Fin l
           \<and> mul64 (currentHeight64 b x) (getVelocityAt64 b x) = Fin r
           \<and> \<bar>l - r\<bar> \<le> 5 / 2 ^ 53 * \<bar>eh * baseVelocity b\<bar>"
proof -
  define base where "base = baseVelocity b"
  define q where "q = eh / ch"
  define q' where "q' = round64 q"
  define v where "v = round64 (base * q')"
  define r where "r = round64 (ch * v)"
  define l where "l = round64 (eh * base)"
  have X: "ch * base * q = eh * base" using nz by (simp add: q_def)
  have vel: "getVelocityAt64 b x = Fin v"
    using nz by (simp add: getVelocityAt64_def eh ch mul64_def div64_def v_def q'_def q_def base_def)
  have L: "mul64 (entranceHeight64 b) (Fin (baseVelocity b)) = Fin l"
    by (simp add: eh mul64_def l_def base_def)
  have R: "mul64 (currentHeight64 b x) (getVelocityAt64 b x) = Fin r"
    by (simp add: ch vel mul64_def r_def)
  have e1: "\<bar>q' - q\<bar> \<le> \<bar>q\<bar> / 2 ^ 53"
    unfolding q'_def q_def using n1 by (rule normal64_error)
  have e2: "\<bar>v - base * q'\<bar> \<le> \<bar>base * q'\<bar> / 2 ^ 53"
    unfolding v_def q'_def q_def base_def using n2 by (rule normal64_error)
  have e3: "\<bar>r - ch * v\<bar> \<le> \<bar>ch * v\<bar> / 2 ^ 53"
    unfolding r_def v_def q'_def q_def base_def using n3 by (rule normal64_error)
  have e4: "\<bar>l - ch * base * q\<bar> \<le> \<bar>ch * base * q\<bar> / 2 ^ 53"
    unfolding X unfolding l_def base_def using n4 by (rule normal64_error)
  have "\<bar>l - r\<bar> \<le> 5 / 2 ^ 53 * \<bar>ch * base * q\<bar>"
    using e1 e2 e3 e4 by (rule rounded_products_close)
  then have "\<bar>l - r\<bar> \<le> 5 / 2 ^ 53 * \<bar>eh * baseVelocity b\<bar>"
    unfolding X by (simp only: base_def)
  then show ?thesis using L R by blast
qed

lemma normal64_moderate:
  assumes "1 / 2 ^ 10 \<le> \<bar>x\<bar>" and "\<bar>x\<bar> \<le> 2 ^ 20"
  shows "normal64 x"
proof -
  have "(1::real) / 2 ^ 1022 \<le> 1 / 2 ^ 10"
    by (intro divide_left_mono power_increasing) simp_all
  moreover have "(2::real) ^ 20 < 2 ^ 1024"
    by (intro power_strict_increasing) simp_all
  ultimately show ?thesis using assms unfolding normal64_def by linarith
qed

text \<open>The default simulator at \<open>x = 3\<close> meets those conditions.\<close>

lemma moderate_at_3:
  "1 / 2 ^ 10 \<le> \<bar>80 / (5569183467775121 / 70368744177664 :: real)\<bar>
   \<and> \<bar>80 / (5569183467775121 / 70368744177664 :: real)\<bar> \<le> 2 ^ 20"
  "1 / 2 ^ 10 \<le> \<bar>50 * round64 (80 / (5569183467775121 / 70368744177664))\<bar>
   \<and> \<bar>50 * round64 (80 / (5569183467775121 / 70368744177664))\<bar> \<le> 2 ^ 20"
  "1 / 2 ^ 10 \<le> \<bar>5569183467775121 / 70368744177664
      * round64 (50 * round64 (80 / (5569183467775121 / 70368744177664)))\<bar>
   \<and> \<bar>5569183467775121 / 70368744177664
      * round64 (50 * round64 (80 / (5569183467775121 / 70368744177664)))\<bar> \<le> 2 ^ 20"
  "1 / 2 ^ 10 \<le> \<bar>80 * 50 :: real\<bar> \<and> \<bar>80 * 50 :: real\<bar> \<le> 2 ^ 20"
  by code_simp+

lemma continuity_binary64_tolerance_at_3:
  "\<exists>l r. mul64 (entranceHeight64 venturi50) (Fin (baseVelocity venturi50)) = Fin l
     \<and> mul64 (currentHeight64 venturi50 3) (getVelocityAt64 venturi50 3) = Fin r
     \<and> \<bar>l - r\<bar> \<le> 5 / 2 ^ 53 * \<bar>80 * baseVelocity venturi50\<bar>"
proof (rule continuity_binary64_tolerance)
  show "entranceHeight64 venturi50 = Fin 80" by (rule entranceHeight64_default)
  show "currentHeight64 venturi50 3 = Fin (5569183467775121 / 70368744177664)"
    by (rule currentHeight64_at_3)
  show "(5569183467775121 / 70368744177664 :: real) \<noteq> 0" by simp
  show "normal64 (80 / (5569183467775121 / 70368744177664))"
    using moderate_at_3(1) by (intro normal64_moderate) simp_all
  show "normal64 (baseVelocity venturi50 * round64 (80 / (5569183467775121 / 70368744177664)))"
    unfolding baseVelocity_default using moderate_at_3(2) by (intro normal64_moderate) simp_all
  show "normal64 (5569183467775121 / 70368744177664
      * round64 (baseVelocity venturi50 * round64 (80 / (5569183467775121 / 70368744177664))))"
    unfolding baseVelocity_default using moderate_at_3(3) by (intro normal64_moderate) simp_all
  show "normal64 (80 * baseVelocity venturi50)"
    unfolding baseVelocity_default using moderate_at_3(4) by (intro normal64_moderate) simp_all
qed

lemma round64_examples:
  "round64 1 = 1"
  "round64 (1 / 10) = 3602879701896397 / 36028797018963968"
  "round64 (3602879701896397 / 36028797018963968) = 3602879701896397 / 36028797018963968"
  by code_simp+

text \<open>
  C3 as stated fails: the relation does not hold exactly. On the default simulator at
  \<open>x = 3\<close> the binary64 products are 4000 for entrance height times reference speed and
  3999.9999999999995 (one unit in the last place less) for local height times local
  speed.
\<close>

theorem continuity_binary64_counterexample:
  "mul64 (entranceHeight64 venturi50) (Fin (baseVelocity venturi50)) = Fin 4000
   \<and> mul64 (currentHeight64 venturi50 3) (getVelocityAt64 venturi50 3) = Fin (4000 - 1 / 2 ^ 41)
   \<and> mul64 (entranceHeight64 venturi50) (Fin (baseVelocity venturi50))
       \<noteq> mul64 (currentHeight64 venturi50 3) (getVelocityAt64 venturi50 3)"
  by (simp add: products64_at_3)

text \<open>
  C3, amended. The continuity relation holds within floating-point tolerance, as the
  spec words it: at every position \<open>x\<close> and for every reference speed, on a canvas of
  non-zero width and height, \<^verbatim>\<open>getTubeHeightAt\<close> and \<^verbatim>\<open>getVelocityAt\<close> return finite
  numbers, and entrance height times reference speed equals local height times local
  speed when their arithmetic is exact; the binary64 results need not be bit-equal
  (\<open>continuity_binary64_tolerance\<close> bounds their difference).
\<close>

theorem continuity_relation:
  assumes "width b \<noteq> 0" and "height b \<noteq> 0"
  shows "\<exists>tp bt v. getTubeHeightAt b x = (Fin tp, Fin bt) \<and> getVelocityAt b x = Fin v
            \<and> entranceHeight b * baseVelocity b = (bt - tp) * v"
proof -
  obtain tp bt where h: "getTubeHeightAt b x = (Fin tp, Fin bt)" "bt - tp \<noteq> 0"
      "getVelocityAt b x = Fin (baseVelocity b * (entranceHeight b / (bt - tp)))"
    using getVelocityAt_value[OF assms] by blast
  have "entranceHeight b * baseVelocity b
        = (bt - tp) * (baseVelocity b * (entranceHeight b / (bt - tp)))"
    using h(2) by simp
  then show ?thesis using h(1,3) by blast
qed

theorem continuity_relation_witness:
  "width venturi50 \<noteq> 0 \<and> height venturi50 \<noteq> 0
   \<and> (\<exists>tp bt v. getTubeHeightAt venturi50 100 = (Fin tp, Fin bt)
         \<and> getVelocityAt venturi50 100 = Fin v
         \<and> entranceHeight venturi50 * baseVelocity venturi50 = (bt - tp) * v)"
  using continuity_relation[of venturi50 100] venturi50_surface by blast

section \<open>The lift-coefficient curve\<close>

lemma liftCurve_pieces:
  "liftCurve a alpha =
     (if alpha < -10 then -0.5
      else if alpha \<le> 15 then baseOffset_of a + 0.1 * alpha
      else if alpha \<le> 20 then baseOffset_of a + 1.5 - 0.8 * ((alpha - 15) / 5)
      else 0.5)"
  by (simp add: liftCurve_def calculateLiftCoefficient_def baseOffset_of_def Let_def)

lemma baseOffset_of_range: "0 \<le> baseOffset_of a \<and> baseOffset_of a \<le> 0.2"
  by (simp add: baseOffset_of_def)

lemma liftCurve_isCont_15: "isCont (liftCurve a) 15"
  unfolding isCont_def LIM_eq
proof (intro allI impI)
  fix r :: real
  assume r: "0 < r"
  define s where "s = min 5 (5 * r)"
  have s: "0 < s" using r by (simp add: s_def)
  have "\<forall>x. x \<noteq> 15 \<and> norm (x - 15) < s \<longrightarrow> norm (liftCurve a x - liftCurve a 15) < r"
  proof (intro allI impI)
    fix x :: real
    assume "x \<noteq> 15 \<and> norm (x - 15) < s"
    then have near: "\<bar>x - 15\<bar> < 5" "\<bar>x - 15\<bar> < 5 * r" by (simp_all add: s_def)
    show "norm (liftCurve a x - liftCurve a 15) < r"
    proof (cases "x \<le> 15")
      case True
      then have "liftCurve a x - liftCurve a 15 = 0.1 * (x - 15)"
        using near(1) by (simp add: liftCurve_pieces)
      then show ?thesis using near(2) by simp
    next
      case False
      then have "liftCurve a x - liftCurve a 15 = - 0.16 * (x - 15)"
        using near(1) by (simp add: liftCurve_pieces)
      then show ?thesis using near(2) by simp
    qed
  qed
  then show "\<exists>s>0. \<forall>x. x \<noteq> 15 \<and> norm (x - 15) < s \<longrightarrow> norm (liftCurve a x - liftCurve a 15) < r"
    using s by blast
qed

lemma liftCurve_jump_high: "\<not> isCont (liftCurve a) 20"
proof
  assume "isCont (liftCurve a) 20"
  then have "\<forall>r>0. \<exists>s>0. \<forall>x. x \<noteq> 20 \<and> norm (x - 20) < s
                \<longrightarrow> norm (liftCurve a x - liftCurve a 20) < r"
    by (simp only: isCont_def LIM_eq)
  then obtain s where s: "0 < s"
      and lim: "\<forall>x. x \<noteq> 20 \<and> norm (x - 20) < s \<longrightarrow> norm (liftCurve a x - liftCurve a 20) < 0.1"
    by (metis zero_less_numeral divide_pos_pos zero_less_one)
  have "norm (liftCurve a (20 + s / 2) - liftCurve a 20) < 0.1"
    using lim s by simp
  moreover have "liftCurve a (20 + s / 2) = 0.5" using s by (simp add: liftCurve_pieces)
  moreover have "liftCurve a 20 = baseOffset_of a + 0.7" by (simp add: liftCurve_pieces)
  ultimately show False using baseOffset_of_range[of a] by simp
qed

lemma liftCurve_jump_low: "\<not> isCont (liftCurve a) (-10)"
proof
  assume "isCont (liftCurve a) (-10)"
  then have "\<forall>r>0. \<exists>s>0. \<forall>x. x \<noteq> -10 \<and> norm (x - (-10)) < s
                \<longrightarrow> norm (liftCurve a x - liftCurve a (-10)) < r"
    by (simp only: isCont_def LIM_eq)
  then obtain s where s: "0 < s"
      and lim: "\<forall>x. x \<noteq> -10 \<and> norm (x - (-10)) < s
                  \<longrightarrow> norm (liftCurve a x - liftCurve a (-10)) < 0.1"
    by (metis zero_less_numeral divide_pos_pos zero_less_one)
  have "norm (liftCurve a (-10 - s / 2) - liftCurve a (-10)) < 0.1"
    using lim s by simp
  moreover have "liftCurve a (-10 - s / 2) = -0.5" using s by (simp add: liftCurve_pieces)
  moreover have "liftCurve a (-10) = baseOffset_of a - 1" by (simp add: liftCurve_pieces)
  ultimately show False using baseOffset_of_range[of a] by simp
qed

text \<open>
  C1 as stated fails. For the cambered foil the curve jumps at 20 degrees (0.9 at 20, 0.5
  above) and at -10 degrees (-0.8 at -10, -0.5 below), and at 20 degrees the coefficient
  is the peak 1.7 less 0.8, not the peak less 80% of the peak.
\<close>

theorem liftCurve_counterexample:
  "\<not> isCont (liftCurve cambered_foil) 20
   \<and> \<not> isCont (liftCurve cambered_foil) (-10)
   \<and> liftCurve cambered_foil 20
       \<noteq> liftCurve cambered_foil 15 - 0.8 * liftCurve cambered_foil 15"
proof -
  have "liftCurve cambered_foil 20 \<noteq> liftCurve cambered_foil 15 - 0.8 * liftCurve cambered_foil 15"
    by (simp add: liftCurve_pieces baseOffset_of_def cambered_foil_def)
  then show ?thesis
    using liftCurve_jump_high[of cambered_foil] liftCurve_jump_low[of cambered_foil] by blast
qed

text \<open>
  C1, amended. For every airfoil type in {cambered, symmetric, flat} the lift coefficient
  is -0.5 for every angle below -10 degrees and 0.5 for every angle above 20 degrees; it
  is continuous in the angle of attack at the breakpoint 15 degrees; in the post-stall band
  15 < alpha <= 20 it decays linearly from the peak value reached at 15 degrees, by 0.16
  per degree, down to the peak less 0.8 at 20 degrees; at the breakpoints -10 and 20 it is
  not continuous.
\<close>

theorem liftCurve_shape:
  assumes "airfoilType a \<in> {''cambered'', ''symmetric'', ''flat''}"
  shows "(alpha < -10 \<longrightarrow> liftCurve a alpha = -0.5)
       \<and> (20 < alpha \<longrightarrow> liftCurve a alpha = 0.5)
       \<and> isCont (liftCurve a) 15
       \<and> (15 < alpha \<and> alpha \<le> 20 \<longrightarrow>
            liftCurve a alpha = liftCurve a 15 - 0.8 * ((alpha - 15) / 5))
       \<and> liftCurve a 20 = liftCurve a 15 - 0.8
       \<and> \<not> isCont (liftCurve a) (-10)
       \<and> \<not> isCont (liftCurve a) 20"
proof (intro conjI impI)
  show "isCont (liftCurve a) 15" by (rule liftCurve_isCont_15)
  show "\<not> isCont (liftCurve a) (-10)" by (rule liftCurve_jump_low)
  show "\<not> isCont (liftCurve a) 20" by (rule liftCurve_jump_high)
  show "liftCurve a 20 = liftCurve a 15 - 0.8" by (simp add: liftCurve_pieces)
next
  assume "alpha < -10"
  then show "liftCurve a alpha = -0.5" by (simp add: liftCurve_pieces)
next
  assume "20 < alpha"
  then show "liftCurve a alpha = 0.5" by (simp add: liftCurve_pieces)
next
  assume "15 < alpha \<and> alpha \<le> 20"
  then show "liftCurve a alpha = liftCurve a 15 - 0.8 * ((alpha - 15) / 5)"
    by (simp add: liftCurve_pieces)
qed

theorem liftCurve_shape_witness:
  "airfoilType cambered_foil \<in> {''cambered'', ''symmetric'', ''flat''}
   \<and> liftCurve cambered_foil (-12) = -0.5
   \<and> liftCurve cambered_foil 25 = 0.5
   \<and> isCont (liftCurve cambered_foil) 15
   \<and> liftCurve cambered_foil 17 = liftCurve cambered_foil 15 - 0.8 * ((17 - 15) / 5)
   \<and> liftCurve cambered_foil 20 = liftCurve cambered_foil 15 - 0.8"
proof -
  have ty: "airfoilType cambered_foil \<in> {''cambered'', ''symmetric'', ''flat''}"
    by (simp add: cambered_foil_def)
  show ?thesis
    using liftCurve_shape[OF ty, of "-12"] liftCurve_shape[OF ty, of 25]
      liftCurve_shape[OF ty, of 17] ty
    by simp
qed

section \<open>Damping in the four-forces simulator\<close>

lemma update_keeps_forces:
  "lift (ForcesVisualization_update dt s) = lift s"
  "weight (ForcesVisualization_update dt s) = weight s"
  "thrust (ForcesVisualization_update dt s) = thrust s"
  "drag (ForcesVisualization_update dt s) = drag s"
  by (simp_all add: ForcesVisualization_update_def Let_def)

lemma update_verticalVelocity:
  "verticalVelocity (ForcesVisualization_update dt s)
     = (verticalVelocity s + (lift s - weight s) * 0.5 * dt) * 0.95"
  by (simp add: ForcesVisualization_update_def Let_def)

lemma update_horizontalVelocity:
  "horizontalVelocity (ForcesVisualization_update dt s)
     = (horizontalVelocity s + (thrust s - drag s) * 0.5 * dt) * 0.95"
  by (simp add: ForcesVisualization_update_def Let_def)

lemma step16_verticalVelocity:
  "verticalVelocity (step16 s) = (verticalVelocity s + (lift s - weight s) * 0.5 * 0.016) * 0.95"
  by (simp only: step16_def update_verticalVelocity)

lemma step16_horizontalVelocity:
  "horizontalVelocity (step16 s)
     = (horizontalVelocity s + (thrust s - drag s) * 0.5 * 0.016) * 0.95"
  by (simp only: step16_def update_horizontalVelocity)

lemma steps_keep_forces:
  "lift ((step16 ^^ n) s) = lift s \<and> weight ((step16 ^^ n) s) = weight s
   \<and> thrust ((step16 ^^ n) s) = thrust s \<and> drag ((step16 ^^ n) s) = drag s"
  by (induction n) (simp_all add: step16_def update_keeps_forces)

text \<open>One damped step keeps a velocity inside any bound that dominates the steady value.\<close>

lemma damped_step_bound:
  fixes v net M :: real
  assumes "abs (v) \<le> M" and "0.152 * abs (net) \<le> M"
  shows "abs ((v + net * 0.5 * 0.016) * 0.95) \<le> M"
proof -
  have e: "(v + net * 0.5 * 0.016) * 0.95 = 0.95 * v + 0.0076 * net"
    by (simp add: algebra_simps)
  have "abs ((v + net * 0.5 * 0.016) * 0.95) = abs (0.95 * v + 0.0076 * net)"
    by (simp only: e)
  also have "\<dots> \<le> abs (0.95 * v) + abs (0.0076 * net)" by (rule abs_triangle_ineq)
  also have "\<dots> = 0.95 * abs (v) + 0.05 * (0.152 * abs (net))" by (simp add: abs_mult)
  also have "\<dots> \<le> 0.95 * M + 0.05 * M" using assms by simp
  also have "\<dots> = M" by simp
  finally show ?thesis .
qed

lemma verticalVelocity_bounded:
  assumes "abs (verticalVelocity s) \<le> M" and "0.152 * abs (lift s - weight s) \<le> M"
  shows "abs (verticalVelocity ((step16 ^^ n) s)) \<le> M"
proof (induction n)
  case 0
  show ?case using assms(1) by simp
next
  case (Suc n)
  let ?s = "(step16 ^^ n) s"
  have net: "lift ?s - weight ?s = lift s - weight s"
    using steps_keep_forces[of n s] by simp
  have "verticalVelocity ((step16 ^^ Suc n) s)
        = (verticalVelocity ?s + (lift ?s - weight ?s) * 0.5 * 0.016) * 0.95"
    by (simp only: funpow.simps comp_apply step16_verticalVelocity)
  also have "\<dots> = (verticalVelocity ?s + (lift s - weight s) * 0.5 * 0.016) * 0.95"
    by (simp only: net)
  finally have eq: "verticalVelocity ((step16 ^^ Suc n) s)
        = (verticalVelocity ?s + (lift s - weight s) * 0.5 * 0.016) * 0.95" .
  show ?case unfolding eq using Suc.IH assms(2) by (rule damped_step_bound)
qed

lemma horizontalVelocity_bounded:
  assumes "abs (horizontalVelocity s) \<le> M" and "0.152 * abs (thrust s - drag s) \<le> M"
  shows "abs (horizontalVelocity ((step16 ^^ n) s)) \<le> M"
proof (induction n)
  case 0
  show ?case using assms(1) by simp
next
  case (Suc n)
  let ?s = "(step16 ^^ n) s"
  have net: "thrust ?s - drag ?s = thrust s - drag s"
    using steps_keep_forces[of n s] by simp
  have "horizontalVelocity ((step16 ^^ Suc n) s)
        = (horizontalVelocity ?s + (thrust ?s - drag ?s) * 0.5 * 0.016) * 0.95"
    by (simp only: funpow.simps comp_apply step16_horizontalVelocity)
  also have "\<dots> = (horizontalVelocity ?s + (thrust s - drag s) * 0.5 * 0.016) * 0.95"
    by (simp only: net)
  finally have eq: "horizontalVelocity ((step16 ^^ Suc n) s)
        = (horizontalVelocity ?s + (thrust s - drag s) * 0.5 * 0.016) * 0.95" .
  show ?case unfolding eq using Suc.IH assms(2) by (rule damped_step_bound)
qed

text \<open>
  C7. For every initial velocity and every net force, held constant over any number \<open>n\<close>
  of 16 ms update steps (the update leaves the four forces as they are), the absolute
  vertical and horizontal velocities never exceed the larger of the initial absolute
  velocity and the steady value \<open>0.95 * (0.5 * 0.016) / (1 - 0.95) * abs(net force)\<close>; in
  particular with net vertical force 100, starting within 15.2, the absolute vertical
  velocity after 10,000 steps is at most 15.2.
\<close>

theorem damping_bounds_velocity:
  "lift ((step16 ^^ n) s) - weight ((step16 ^^ n) s) = lift s - weight s
   \<and> thrust ((step16 ^^ n) s) - drag ((step16 ^^ n) s) = thrust s - drag s
   \<and> abs (verticalVelocity ((step16 ^^ n) s))
       \<le> max (abs (verticalVelocity s)) (0.95 * (0.5 * 0.016) / (1 - 0.95) * abs (lift s - weight s))
   \<and> abs (horizontalVelocity ((step16 ^^ n) s))
       \<le> max (abs (horizontalVelocity s)) (0.95 * (0.5 * 0.016) / (1 - 0.95) * abs (thrust s - drag s))
   \<and> (lift s - weight s = 100 \<and> abs (verticalVelocity s) \<le> 15.2
        \<longrightarrow> abs (verticalVelocity ((step16 ^^ 10000) s)) \<le> 15.2)"
proof (intro conjI impI)
  show "lift ((step16 ^^ n) s) - weight ((step16 ^^ n) s) = lift s - weight s"
    using steps_keep_forces[of n s] by simp
  show "thrust ((step16 ^^ n) s) - drag ((step16 ^^ n) s) = thrust s - drag s"
    using steps_keep_forces[of n s] by simp
next
  have k: "0.95 * (0.5 * 0.016) / (1 - 0.95) * abs (lift s - weight s)
           = 0.152 * abs (lift s - weight s)" by simp
  show "abs (verticalVelocity ((step16 ^^ n) s))
       \<le> max (abs (verticalVelocity s)) (0.95 * (0.5 * 0.016) / (1 - 0.95) * abs (lift s - weight s))"
    unfolding k by (rule verticalVelocity_bounded) simp_all
next
  have k: "0.95 * (0.5 * 0.016) / (1 - 0.95) * abs (thrust s - drag s)
           = 0.152 * abs (thrust s - drag s)" by simp
  show "abs (horizontalVelocity ((step16 ^^ n) s))
       \<le> max (abs (horizontalVelocity s)) (0.95 * (0.5 * 0.016) / (1 - 0.95) * abs (thrust s - drag s))"
    unfolding k by (rule horizontalVelocity_bounded) simp_all
next
  assume a: "lift s - weight s = 100 \<and> abs (verticalVelocity s) \<le> 15.2"
  show "abs (verticalVelocity ((step16 ^^ 10000) s)) \<le> 15.2"
    by (rule verticalVelocity_bounded) (use a in simp_all)
qed

theorem damping_bounds_velocity_witness:
  "lift climbing - weight climbing = 100 \<and> abs (verticalVelocity climbing) \<le> 15.2
   \<and> abs (verticalVelocity ((step16 ^^ 10000) climbing)) \<le> 15.2
   \<and> abs (horizontalVelocity ((step16 ^^ 10000) climbing)) \<le> 3.04"
proof -
  have h: "lift climbing - weight climbing = 100 \<and> abs (verticalVelocity climbing) \<le> 15.2"
    by (simp add: climbing_def)
  have "abs (horizontalVelocity ((step16 ^^ 10000) climbing))
       \<le> max (abs (horizontalVelocity climbing))
            (0.95 * (0.5 * 0.016) / (1 - 0.95) * abs (thrust climbing - drag climbing))"
    using damping_bounds_velocity[of 10000 climbing] by blast
  then have "abs (horizontalVelocity ((step16 ^^ 10000) climbing)) \<le> 3.04"
    by (simp add: climbing_def)
  then show ?thesis using damping_bounds_velocity[of 10000 climbing] h by blast
qed

section \<open>The flight-phases state machine\<close>

lemma setPhase_header:
  "currentPhase (setPhase phase now s) = phase"
  "phaseProgress (setPhase phase now s) = 0"
  "phaseStartTime (setPhase phase now s) = now"
  "currentPhaseIndex (setPhase phase now s) = currentPhaseIndex s"
  "autoPlayEnabled (setPhase phase now s) = autoPlayEnabled s"
  by (simp_all add: setPhase_def Let_def)

lemma update_advances:
  assumes "autoPlayEnabled s" and "t1 - phaseStartTime s \<ge> phaseDuration"
  shows "currentPhaseIndex (FlightPhasesVisualization_update dt t1 t2 t3 s)
           = (currentPhaseIndex s + 1) mod 5"
    and "currentPhase (FlightPhasesVisualization_update dt t1 t2 t3 s)
           = phaseSequence ! ((currentPhaseIndex s + 1) mod 5)"
    and "autoPlayEnabled (FlightPhasesVisualization_update dt t1 t2 t3 s)"
    and "phaseStartTime (FlightPhasesVisualization_update dt t1 t2 t3 s) = t2"
proof -
  have len: "length phaseSequence = 5" by (simp add: phaseSequence_def)
  show "currentPhaseIndex (FlightPhasesVisualization_update dt t1 t2 t3 s)
           = (currentPhaseIndex s + 1) mod 5"
    using assms by (simp add: FlightPhasesVisualization_update_def Let_def setPhase_header len)
  show "currentPhase (FlightPhasesVisualization_update dt t1 t2 t3 s)
           = phaseSequence ! ((currentPhaseIndex s + 1) mod 5)"
    using assms by (simp add: FlightPhasesVisualization_update_def Let_def setPhase_header len)
  show "autoPlayEnabled (FlightPhasesVisualization_update dt t1 t2 t3 s)"
    using assms by (simp add: FlightPhasesVisualization_update_def Let_def setPhase_header len)
  show "phaseStartTime (FlightPhasesVisualization_update dt t1 t2 t3 s) = t2"
    using assms by (simp add: FlightPhasesVisualization_update_def Let_def setPhase_header len)
qed

text \<open>
  After \<open>k\<close> advancement steps under autoplay the index has moved \<open>k\<close> places round the
  cycle, and the active phase is the entry of \<^verbatim>\<open>phaseSequence\<close> at that index.
\<close>

lemma run_updates_advancing:
  assumes "autoPlayEnabled s" and "advancing fs s" and "fs \<noteq> []"
  shows "currentPhaseIndex (run_updates fs s) = (currentPhaseIndex s + length fs) mod 5
       \<and> currentPhase (run_updates fs s) = phaseSequence ! ((currentPhaseIndex s + length fs) mod 5)"
  using assms
proof (induction fs arbitrary: s)
  case Nil
  then show ?case by simp
next
  case (Cons f fs)
  obtain dt t1 t2 t3 where f: "f = (dt, t1, t2, t3)" by (cases f) auto
  let ?s = "FlightPhasesVisualization_update dt t1 t2 t3 s"
  have el: "t1 - phaseStartTime s \<ge> phaseDuration" and adv: "advancing fs ?s"
    using Cons.prems(2) by (simp_all add: f)
  note step = update_advances[OF Cons.prems(1) el, of dt t2 t3]
  show ?case
  proof (cases "fs = []")
    case True
    then show ?thesis using step(1,2) by (simp add: f)
  next
    case False
    have "currentPhaseIndex (run_updates fs ?s) = (currentPhaseIndex ?s + length fs) mod 5
        \<and> currentPhase (run_updates fs ?s)
            = phaseSequence ! ((currentPhaseIndex ?s + length fs) mod 5)"
      using Cons.IH[OF step(3) adv False] .
    moreover have "(currentPhaseIndex ?s + length fs) mod 5
                   = (currentPhaseIndex s + length (f # fs)) mod 5"
      by (simp add: step(1) mod_simps)
    ultimately show ?thesis by (simp add: f)
  qed
qed

lemma autoplaying_start:
  "autoPlayEnabled autoplaying \<and> currentPhase autoplaying = ''cruise''
   \<and> currentPhaseIndex autoplaying = 2 \<and> phaseStartTime autoplaying = 0"
  by (simp add: autoplaying_def cruising_def initial_phases_def setPhase_header resetDimensions_def)

lemma intervals_advancing: "advancing five_intervals autoplaying \<and> advancing four_intervals autoplaying"
proof -
  have a: "autoPlayEnabled autoplaying" and p: "phaseStartTime autoplaying = 0"
    using autoplaying_start by simp_all
  show ?thesis
    by (simp add: five_intervals_def four_intervals_def frame_at_def
        update_advances a p phaseDuration_def)
qed

lemma update_fields:
  "autoPlayEnabled (FlightPhasesVisualization_update dt t1 t2 t3 s) = autoPlayEnabled s"
  "phaseStartTime (FlightPhasesVisualization_update dt t1 t2 t3 s)
     = (if autoPlayEnabled s \<and> t1 - phaseStartTime s \<ge> phaseDuration then t2
        else phaseStartTime s)"
  "currentPhaseIndex (FlightPhasesVisualization_update dt t1 t2 t3 s)
     = (if autoPlayEnabled s \<and> t1 - phaseStartTime s \<ge> phaseDuration
        then (currentPhaseIndex s + 1) mod 5 else currentPhaseIndex s)"
  "currentPhase (FlightPhasesVisualization_update dt t1 t2 t3 s)
     = (if autoPlayEnabled s \<and> t1 - phaseStartTime s \<ge> phaseDuration
        then phaseSequence ! ((currentPhaseIndex s + 1) mod 5) else currentPhase s)"
  by (simp_all add: FlightPhasesVisualization_update_def Let_def setPhase_header phaseSequence_def)

text \<open>
  Along any run of frames the active phase stays the entry of \<^verbatim>\<open>phaseSequence\<close> at the
  current index, and the index moves one place round the cycle per advancement step.
\<close>

lemma run_updates_counts:
  assumes "currentPhaseIndex s < 5" and "currentPhase s = phaseSequence ! currentPhaseIndex s"
  shows "currentPhaseIndex (run_updates fs s) = (currentPhaseIndex s + advancements fs s) mod 5
       \<and> currentPhase (run_updates fs s)
           = phaseSequence ! ((currentPhaseIndex s + advancements fs s) mod 5)"
  using assms
proof (induction fs arbitrary: s)
  case Nil
  then show ?case by simp
next
  case (Cons f fs)
  obtain dt t1 t2 t3 where f: "f = (dt, t1, t2, t3)" by (cases f) auto
  let ?s = "FlightPhasesVisualization_update dt t1 t2 t3 s"
  have i: "currentPhaseIndex ?s < 5" and c: "currentPhase ?s = phaseSequence ! currentPhaseIndex ?s"
    using Cons.prems by (simp_all add: update_fields)
  have ih: "currentPhaseIndex (run_updates fs ?s) = (currentPhaseIndex ?s + advancements fs ?s) mod 5
       \<and> currentPhase (run_updates fs ?s)
           = phaseSequence ! ((currentPhaseIndex ?s + advancements fs ?s) mod 5)"
    using Cons.IH[OF i c] .
  have "(currentPhaseIndex ?s + advancements fs ?s) mod 5
        = (currentPhaseIndex s + advancements (f # fs) s) mod 5"
    by (simp add: f update_fields mod_simps)
  then show ?case using ih by (simp add: f)
qed

lemma browser_run_advancements:
  "advancements (take 4 browser_run) autoplaying = 2"
  "advancements (take 6 browser_run) autoplaying = 3"
  "advancements (take 8 browser_run) autoplaying = 4"
  "advancements browser_run autoplaying = 5"
  using autoplaying_start
  by (simp_all add: browser_run_def frame_at_def update_fields phaseDuration_def)

text \<open>
  C4 as stated fails. From cruise (index 2) with autoplay on, four advancement steps
  3000 ms apart end in climb, not landing, and five end in cruise, not takeoff.
\<close>

theorem autoplay_cycle_counterexample:
  "autoPlayEnabled autoplaying \<and> currentPhase autoplaying = ''cruise''
   \<and> currentPhaseIndex autoplaying = 2
   \<and> advancing four_intervals autoplaying
   \<and> currentPhase (run_updates four_intervals autoplaying) \<noteq> ''landing''
   \<and> advancing five_intervals autoplaying
   \<and> currentPhase (run_updates five_intervals autoplaying) \<noteq> ''takeoff''"
proof -
  have a: "autoPlayEnabled autoplaying" and i: "currentPhaseIndex autoplaying = 2"
    using autoplaying_start by simp_all
  have adv4: "advancing four_intervals autoplaying" and adv5: "advancing five_intervals autoplaying"
    using intervals_advancing by simp_all
  have "currentPhase (run_updates four_intervals autoplaying) = ''climb''"
    using run_updates_advancing[OF a adv4]
    by (simp add: i four_intervals_def phaseSequence_def)
  moreover have "currentPhase (run_updates five_intervals autoplaying) = ''cruise''"
    using run_updates_advancing[OF a adv5]
    by (simp add: i five_intervals_def four_intervals_def phaseSequence_def)
  ultimately show ?thesis using autoplaying_start adv4 adv5 by simp
qed

text \<open>
  C4, amended. Starting with currentPhase = cruise (index 2 of the cyclic order takeoff,
  climb, cruise, descent, landing) and autoplay enabled, in any run of frames the active
  phase is landing once 2 advancement steps have happened and takeoff once 3 have; once 4
  advancement steps have happened it is climb, and once 5 have it is cruise again. The
  frames between the advancement steps are arbitrary.
\<close>

theorem autoplay_cycle:
  assumes "autoPlayEnabled s" and "currentPhase s = ''cruise''" and "currentPhaseIndex s = 2"
  shows "(advancements fs s = 2 \<longrightarrow> currentPhase (run_updates fs s) = ''landing'')
       \<and> (advancements fs s = 3 \<longrightarrow> currentPhase (run_updates fs s) = ''takeoff'')
       \<and> (advancements fs s = 4 \<longrightarrow> currentPhase (run_updates fs s) = ''climb'')
       \<and> (advancements fs s = 5 \<longrightarrow> currentPhase (run_updates fs s) = ''cruise'')"
proof -
  have i: "currentPhaseIndex s < 5" using assms(3) by simp
  have c: "currentPhase s = phaseSequence ! currentPhaseIndex s"
    using assms(2,3) by (simp add: phaseSequence_def)
  have run: "currentPhase (run_updates fs s) = phaseSequence ! ((2 + advancements fs s) mod 5)"
    using run_updates_counts[OF i c, of fs] assms(3) by simp
  show ?thesis
  proof (intro conjI impI)
    assume "advancements fs s = 2"
    then show "currentPhase (run_updates fs s) = ''landing''"
      using run by (simp add: phaseSequence_def)
  next
    assume "advancements fs s = 3"
    then show "currentPhase (run_updates fs s) = ''takeoff''"
      using run by (simp add: phaseSequence_def)
  next
    assume "advancements fs s = 4"
    then show "currentPhase (run_updates fs s) = ''climb''"
      using run by (simp add: phaseSequence_def)
  next
    assume "advancements fs s = 5"
    then show "currentPhase (run_updates fs s) = ''cruise''"
      using run by (simp add: phaseSequence_def)
  qed
qed

theorem autoplay_cycle_witness:
  "autoPlayEnabled autoplaying \<and> currentPhase autoplaying = ''cruise''
   \<and> currentPhaseIndex autoplaying = 2
   \<and> advancements (take 4 browser_run) autoplaying = 2
   \<and> currentPhase (run_updates (take 4 browser_run) autoplaying) = ''landing''
   \<and> advancements (take 6 browser_run) autoplaying = 3
   \<and> currentPhase (run_updates (take 6 browser_run) autoplaying) = ''takeoff''
   \<and> advancements (take 8 browser_run) autoplaying = 4
   \<and> currentPhase (run_updates (take 8 browser_run) autoplaying) = ''climb''
   \<and> advancements browser_run autoplaying = 5
   \<and> currentPhase (run_updates browser_run autoplaying) = ''cruise''"
proof -
  have a: "autoPlayEnabled autoplaying" and c: "currentPhase autoplaying = ''cruise''"
    and i: "currentPhaseIndex autoplaying = 2"
    using autoplaying_start by simp_all
  show ?thesis
    using autoplay_cycle[OF a c i, of "take 4 browser_run"]
      autoplay_cycle[OF a c i, of "take 6 browser_run"]
      autoplay_cycle[OF a c i, of "take 8 browser_run"]
      autoplay_cycle[OF a c i, of browser_run]
      browser_run_advancements a c i
    by simp
qed

text \<open>
  C10. \<^verbatim>\<open>setPhase\<close> with a name outside the five known phases sets
  \<^verbatim>\<open>currentPhase\<close> to that name, resets \<^verbatim>\<open>phaseProgress\<close> to 0 and leaves
  \<^verbatim>\<open>targetX\<close>, \<^verbatim>\<open>targetY\<close>, \<^verbatim>\<open>targetRotation\<close> and \<^verbatim>\<open>targetVelocity\<close> of the
  airplane as they were.
\<close>

theorem setPhase_unknown_name:
  assumes "phase \<notin> set phaseSequence"
  shows "currentPhase (setPhase phase now s) = phase
       \<and> phaseProgress (setPhase phase now s) = 0
       \<and> airplane_targetX (setPhase phase now s) = airplane_targetX s
       \<and> airplane_targetY (setPhase phase now s) = airplane_targetY s
       \<and> airplane_targetRotation (setPhase phase now s) = airplane_targetRotation s
       \<and> airplane_targetVelocity (setPhase phase now s) = airplane_targetVelocity s"
  using assms by (simp add: setPhase_def phaseSequence_def Let_def)

theorem setPhase_unknown_name_witness:
  "''hover'' \<notin> set phaseSequence
   \<and> currentPhase (setPhase ''hover'' 1234 cruising) = ''hover''
   \<and> phaseProgress (setPhase ''hover'' 1234 cruising) = 0
   \<and> airplane_targetX (setPhase ''hover'' 1234 cruising) = airplane_targetX cruising
   \<and> airplane_targetY (setPhase ''hover'' 1234 cruising) = airplane_targetY cruising
   \<and> airplane_targetRotation (setPhase ''hover'' 1234 cruising) = airplane_targetRotation cruising
   \<and> airplane_targetVelocity (setPhase ''hover'' 1234 cruising) = airplane_targetVelocity cruising"
proof -
  have h: "''hover'' \<notin> set phaseSequence" by (simp add: phaseSequence_def)
  show ?thesis using setPhase_unknown_name[OF h, of 1234 cruising] h by simp
qed

section \<open>Construction, defaults and the missing drawing surface\<close>

lemma construct_missing:
  "doc canvasId = None \<Longrightarrow> construct doc canvasId body = ([notFound canvasId], Inr (Inert bare))"
  by (simp add: construct_def)

lemma construct_live:
  "doc canvasId = Some cv \<Longrightarrow> getContext2d cv = Some c
     \<Longrightarrow> construct doc canvasId body = ([], Inr (Live (body cv c)))"
  by (simp add: construct_def)

lemma or_opt_zero: "or_opt (Some 0) d = d" "or_opt None d = d"
  by (simp_all add: or_opt_def or_num_def)

lemma bare_reads:
  "getp bare ''ctx'' = Undefined"
  "getp (bare(''baseVelocity'' \<mapsto> v)) ''ctx'' = Undefined"
  "getp (bare(''baseVelocity'' \<mapsto> v)) ''isRunning'' = Undefined"
  by (simp_all add: getp_def bare_def)

lemma setVelocity_bare: "setVelocity v (Inert bare) = Inl TypeError"
  by (simp add: Let_def bare_reads)

lemma setControls_bare: "setControls a e r (Inert bare) = Inl TypeError"
  by (simp add: getp_def bare_def)

text \<open>
  C8. On a constructed control-surfaces simulator \<^verbatim>\<open>setControls\<close> returns normally,
  stores the three deflections and sets roll = -aileron * 0.8, pitch = -elevator * 0.5,
  yaw = rudder * 0.6; \<^verbatim>\<open>setControls(10, 0, 0)\<close> gives rollAngle = -8 and leaves the pitch
  and yaw indicators at 0.
\<close>

theorem setControls_gains:
  "(\<exists>s'. setControls aileron elevator rudder (Live s) = Inr (Live s')
        \<and> aileronDeflection s' = aileron \<and> elevatorDeflection s' = elevator
        \<and> rudderDeflection s' = rudder
        \<and> rollAngle s' = - aileron * 0.8
        \<and> pitchAngle s' = - elevator * 0.5
        \<and> yawAngle s' = rudder * 0.6)
   \<and> (\<exists>s'. setControls 10 0 0 (Live s) = Inr (Live s')
        \<and> rollAngle s' = -8 \<and> pitchAngle s' = 0 \<and> yawAngle s' = 0)"
  by simp

text \<open>
  C9. With the canvas and its context present, every constructor that reads options
  turns an option passed as the number 0 into the documented default, exactly as it does
  for an absent option: 50 and 150 for \<^verbatim>\<open>baseVelocity\<close> and \<^verbatim>\<open>particleCount\<close>, 5 for
  \<^verbatim>\<open>angleOfAttack\<close>, 50 for each of the four forces, 0 for the three deflections.
\<close>

theorem zero_option_gives_default:
  assumes "doc canvasId = Some cv" and "getContext2d cv = Some c"
  shows "(\<exists>b. BernoulliVisualization doc dpr ps canvasId bo = ([], Inr (Live b))
            \<and> (opt_baseVelocity bo = Some 0 \<or> opt_baseVelocity bo = None
                  \<longrightarrow> baseVelocity b = 50)
            \<and> (opt_particleCount bo = Some 0 \<or> opt_particleCount bo = None
                  \<longrightarrow> particleCount b = 150))
       \<and> (\<exists>a. AirfoilVisualization doc dpr canvasId ao = ([], Inr (Live a))
            \<and> (opt_angleOfAttack ao = Some 0 \<or> opt_angleOfAttack ao = None
                  \<longrightarrow> angleOfAttack a = 5))
       \<and> (\<exists>f. ForcesVisualization doc dpr canvasId fo = ([], Inr (Live f))
            \<and> (opt_lift fo = Some 0 \<or> opt_lift fo = None \<longrightarrow> lift f = 50)
            \<and> (opt_weight fo = Some 0 \<or> opt_weight fo = None \<longrightarrow> weight f = 50)
            \<and> (opt_thrust fo = Some 0 \<or> opt_thrust fo = None \<longrightarrow> thrust f = 50)
            \<and> (opt_drag fo = Some 0 \<or> opt_drag fo = None \<longrightarrow> drag f = 50))
       \<and> (\<exists>k. ControlSurfacesVisualization doc dpr canvasId co = ([], Inr (Live k))
            \<and> (opt_aileronDeflection co = Some 0 \<or> opt_aileronDeflection co = None
                  \<longrightarrow> aileronDeflection k = 0)
            \<and> (opt_elevatorDeflection co = Some 0 \<or> opt_elevatorDeflection co = None
                  \<longrightarrow> elevatorDeflection k = 0)
            \<and> (opt_rudderDeflection co = Some 0 \<or> opt_rudderDeflection co = None
                  \<longrightarrow> rudderDeflection k = 0))"
proof (intro conjI)
  note live = construct_live[of doc canvasId cv c, OF assms]
  show "\<exists>b. BernoulliVisualization doc dpr ps canvasId bo = ([], Inr (Live b))
            \<and> (opt_baseVelocity bo = Some 0 \<or> opt_baseVelocity bo = None
                  \<longrightarrow> baseVelocity b = 50)
            \<and> (opt_particleCount bo = Some 0 \<or> opt_particleCount bo = None
                  \<longrightarrow> particleCount b = 150)"
    by (auto simp add: BernoulliVisualization_def live or_opt_zero)
  show "\<exists>a. AirfoilVisualization doc dpr canvasId ao = ([], Inr (Live a))
            \<and> (opt_angleOfAttack ao = Some 0 \<or> opt_angleOfAttack ao = None
                  \<longrightarrow> angleOfAttack a = 5)"
    by (auto simp add: AirfoilVisualization_def live or_opt_zero)
  show "\<exists>f. ForcesVisualization doc dpr canvasId fo = ([], Inr (Live f))
            \<and> (opt_lift fo = Some 0 \<or> opt_lift fo = None \<longrightarrow> lift f = 50)
            \<and> (opt_weight fo = Some 0 \<or> opt_weight fo = None \<longrightarrow> weight f = 50)
            \<and> (opt_thrust fo = Some 0 \<or> opt_thrust fo = None \<longrightarrow> thrust f = 50)
            \<and> (opt_drag fo = Some 0 \<or> opt_drag fo = None \<longrightarrow> drag f = 50)"
    by (auto simp add: ForcesVisualization_def live or_opt_zero
        resetPlanePosition_def)
  show "\<exists>k. ControlSurfacesVisualization doc dpr canvasId co = ([], Inr (Live k))
            \<and> (opt_aileronDeflection co = Some 0 \<or> opt_aileronDeflection co = None
                  \<longrightarrow> aileronDeflection k = 0)
            \<and> (opt_elevatorDeflection co = Some 0 \<or> opt_elevatorDeflection co = None
                  \<longrightarrow> elevatorDeflection k = 0)
            \<and> (opt_rudderDeflection co = Some 0 \<or> opt_rudderDeflection co = None
                  \<longrightarrow> rudderDeflection k = 0)"
    by (auto simp add: ControlSurfacesVisualization_def live or_opt_zero
        resetPosition_def)
qed

theorem zero_option_gives_default_witness:
  "full_page ''sim'' = Some \<lparr>canvas_width = 800, canvas_height = 400, getContext2d = Some 1\<rparr>
   \<and> (\<exists>b. BernoulliVisualization full_page 2 [] ''sim''
              \<lparr>opt_baseVelocity = Some 0, opt_particleCount = Some 0\<rparr> = ([], Inr (Live b))
          \<and> baseVelocity b = 50 \<and> particleCount b = 150)
   \<and> (\<exists>a. AirfoilVisualization full_page 2 ''sim''
              \<lparr>opt_angleOfAttack = Some 0, opt_airfoilType = None\<rparr> = ([], Inr (Live a))
          \<and> angleOfAttack a = 5)
   \<and> (\<exists>f. ForcesVisualization full_page 2 ''sim''
              \<lparr>opt_lift = Some 0, opt_weight = Some 0, opt_thrust = Some 0, opt_drag = Some 0\<rparr>
            = ([], Inr (Live f))
          \<and> lift f = 50 \<and> weight f = 50 \<and> thrust f = 50 \<and> drag f = 50)
   \<and> (\<exists>k. ControlSurfacesVisualization full_page 2 ''sim''
              \<lparr>opt_aileronDeflection = Some 0, opt_elevatorDeflection = Some 0,
               opt_rudderDeflection = Some 0\<rparr> = ([], Inr (Live k))
          \<and> aileronDeflection k = 0 \<and> elevatorDeflection k = 0 \<and> rudderDeflection k = 0)"
proof -
  have page: "full_page ''sim''
                = Some \<lparr>canvas_width = 800, canvas_height = 400, getContext2d = Some 1\<rparr>"
    by (simp add: full_page_def)
  have c: "getContext2d \<lparr>canvas_width = 800, canvas_height = 400, getContext2d = Some 1\<rparr> = Some 1"
    by simp
  show ?thesis
    using zero_option_gives_default[of full_page "''sim''"
        "\<lparr>canvas_width = 800, canvas_height = 400, getContext2d = Some 1\<rparr>" 1 2 "[]"
        "\<lparr>opt_baseVelocity = Some 0, opt_particleCount = Some 0\<rparr>"
        "\<lparr>opt_angleOfAttack = Some 0, opt_airfoilType = None\<rparr>"
        "\<lparr>opt_lift = Some 0, opt_weight = Some 0, opt_thrust = Some 0, opt_drag = Some 0\<rparr>"
        "\<lparr>opt_aileronDeflection = Some 0, opt_elevatorDeflection = Some 0,
          opt_rudderDeflection = Some 0\<rparr>"] page c
    by simp
qed

text \<open>
  C6 as stated fails. On a page without the canvas the Bernoulli constructor logs and
  returns the bare object, but that object is not a no-op: \<^verbatim>\<open>setVelocity(60)\<close> throws a
  TypeError at the first use of \<^verbatim>\<open>this.ctx\<close> in \<^verbatim>\<open>draw()\<close>, and so does
  \<^verbatim>\<open>setControls(10, 0, 0)\<close> on a control-surfaces object built the same way.
\<close>

theorem inert_object_counterexample:
  "BernoulliVisualization empty_page 1 [] ''bernoulli-canvas''
       \<lparr>opt_baseVelocity = None, opt_particleCount = None\<rparr>
     = ([notFound ''bernoulli-canvas''], Inr (Inert bare))
   \<and> setVelocity 60 (Inert bare) = Inl TypeError
   \<and> ControlSurfacesVisualization empty_page 1 ''controls-canvas''
       \<lparr>opt_aileronDeflection = None, opt_elevatorDeflection = None, opt_rudderDeflection = None\<rparr>
     = ([notFound ''controls-canvas''], Inr (Inert bare))
   \<and> setControls 10 0 0 (Inert bare) = Inl TypeError"
proof (intro conjI)
  show "BernoulliVisualization empty_page 1 [] ''bernoulli-canvas''
          \<lparr>opt_baseVelocity = None, opt_particleCount = None\<rparr>
        = ([notFound ''bernoulli-canvas''], Inr (Inert bare))"
    by (simp add: BernoulliVisualization_def construct_missing empty_page_def)
  show "setVelocity 60 (Inert bare) = Inl TypeError"
    by (rule setVelocity_bare)
  show "ControlSurfacesVisualization empty_page 1 ''controls-canvas''
          \<lparr>opt_aileronDeflection = None, opt_elevatorDeflection = None,
            opt_rudderDeflection = None\<rparr>
        = ([notFound ''controls-canvas''], Inr (Inert bare))"
    by (simp add: ControlSurfacesVisualization_def construct_missing empty_page_def)
  show "setControls 10 0 0 (Inert bare) = Inl TypeError"
    by (rule setControls_bare)
qed

text \<open>
  C6, amended. When the target drawing surface is missing at construction time, the
  constructor of each of the six simulators does not throw, reports the condition with
  one \<^verbatim>\<open>console.error\<close> message naming the canvas id, and returns an object whose only
  property is \<^verbatim>\<open>canvas\<close> = null. On that object \<^verbatim>\<open>stop()\<close> and \<^verbatim>\<open>destroy()\<close> of
  the Bernoulli simulator return without throwing; they store \<^verbatim>\<open>isRunning\<close> = false and
  an empty \<^verbatim>\<open>particles\<close> array in it.
\<close>

theorem missing_surface_construction:
  assumes "doc canvasId = None"
  shows "BernoulliVisualization doc dpr ps canvasId bo = ([notFound canvasId], Inr (Inert bare))
       \<and> AirfoilVisualization doc dpr canvasId ao = ([notFound canvasId], Inr (Inert bare))
       \<and> ForcesVisualization doc dpr canvasId fo = ([notFound canvasId], Inr (Inert bare))
       \<and> ControlSurfacesVisualization doc dpr canvasId co = ([notFound canvasId], Inr (Inert bare))
       \<and> FlightPhasesVisualization doc dpr now canvasId = ([notFound canvasId], Inr (Inert bare))
       \<and> IntroVisualization doc dpr canvasId = ([notFound canvasId], Inr (Inert bare))
       \<and> stop (Inert bare) = Inr (Inert (bare(''isRunning'' \<mapsto> Bool False)))
       \<and> destroy (Inert bare)
           = Inr (Inert (bare(''isRunning'' \<mapsto> Bool False, ''particles'' \<mapsto> Arr [])))"
  using assms
  by (simp add: BernoulliVisualization_def AirfoilVisualization_def ForcesVisualization_def
      ControlSurfacesVisualization_def FlightPhasesVisualization_def IntroVisualization_def
      construct_missing)

theorem missing_surface_construction_witness:
  "empty_page ''bernoulli-canvas'' = None
   \<and> BernoulliVisualization empty_page 1 [] ''bernoulli-canvas''
       \<lparr>opt_baseVelocity = Some 60, opt_particleCount = None\<rparr>
     = ([notFound ''bernoulli-canvas''], Inr (Inert bare))
   \<and> IntroVisualization empty_page 1 ''bernoulli-canvas''
     = ([notFound ''bernoulli-canvas''], Inr (Inert bare))
   \<and> stop (Inert bare) = Inr (Inert (bare(''isRunning'' \<mapsto> Bool False)))"
proof -
  have e: "empty_page ''bernoulli-canvas'' = None" by (simp add: empty_page_def)
  show ?thesis
    using missing_surface_construction[of empty_page "''bernoulli-canvas''" 1 "[]"
        "\<lparr>opt_baseVelocity = Some 60, opt_particleCount = None\<rparr>"] e
    by simp
qed

end
